theory Spec2Isabelle
  imports Main
begin

section \<open>Python values, the SDK's objects and the observable events\<close>

text \<open>
  A call of a Python function either returns a value or raises an exception (a subclass of
  \<^verbatim>\<open>Exception\<close>); the string carried by \<open>Raises\<close> is \<^verbatim>\<open>str(e)\<close>, the text the
  source interpolates into its messages.
\<close>

datatype 'a outcome = Returns 'a | Raises string

text \<open>
  \<^verbatim>\<open>genai.Client\<close> is opaque to the program; the model keeps the key it was built from.
  \<^verbatim>\<open>types.File\<close> is the remote file handle, of which the program reads the field
  \<^verbatim>\<open>name\<close> only. Streamlit's \<^verbatim>\<open>UploadedFile\<close> has a \<^verbatim>\<open>name\<close> and the bytes
  \<^verbatim>\<open>getbuffer()\<close> returns.
\<close>

datatype Client = Client (api_key: string)

datatype types_File = File (file_name: string)

datatype UploadedFile = UploadedFile (name: string) (getbuffer: string)

text \<open>A chat message is the dict \<^verbatim>\<open>{"role": ..., "content": ...}\<close>; the content is whatever
  \<^verbatim>\<open>process_document\<close> returned, which Python allows to be \<^verbatim>\<open>None\<close>.\<close>

record message =
  role :: string
  content :: "string option"

text \<open>
  Everything the program does to the outside is appended to a trace, in program order: the
  calls of the vendor SDK, the operations on the local file system, and the elements it
  shows to the user.
\<close>

datatype event =
    GenaiClient string                        \<comment> \<open>\<^verbatim>\<open>genai.Client(api_key=k)\<close>\<close>
  | FilesUpload string                        \<comment> \<open>\<^verbatim>\<open>_client.files.upload(file=path)\<close>\<close>
  | FilesDelete string                        \<comment> \<open>\<^verbatim>\<open>_client.files.delete(name=n)\<close>\<close>
  | GenerateContent string types_File string  \<comment> \<open>model, and the contents \<^verbatim>\<open>[file, prompt]\<close>\<close>
  | Mkdir string
  | OpenWrite string string                   \<comment> \<open>path, bytes written\<close>
  | OsRemove string
  | OsRmdir string
  | StError string
  | StWarning string
  | StToast string
  | StInfo string
  | StSuccess string
  | StCode string
  | ChatMessage string "string option"        \<comment> \<open>\<^verbatim>\<open>with st.chat_message(role): st.markdown(content)\<close>\<close>

text \<open>
  The environment of one script run. Everything in it lies outside the repository and
  is therefore a parameter; every theorem below holds for all its values.
  \<^item> The secrets store: whether a secrets file exists at all, and its keys. Streamlit
    raises \<^verbatim>\<open>StreamlitSecretNotFoundError\<close> (not a \<^verbatim>\<open>KeyError\<close>) on any lookup when
    there is no file, and \<^verbatim>\<open>KeyError\<close> when the file lacks the key.
  \<^item> The behaviour of the vendor SDK.
  \<^item> What \<^verbatim>\<open>pathlib\<close> and the operating system make of an uploaded file's name that is
    neither a plain file name, nor empty, nor one plain name below another (see
    \<open>locate\<close> below): an absolute name, a name with dots or several separators, a name
    the file system refuses.
\<close>

datatype target =
    Entry string        \<comment> \<open>the file of this name directly in \<^verbatim>\<open>temp_uploads\<close>\<close>
  | Nested string       \<comment> \<open>a path below this entry, which would have to be a directory\<close>
  | Outside string      \<comment> \<open>a file, at this path, that is not in \<^verbatim>\<open>temp_uploads\<close>\<close>
  | Unopenable string   \<comment> \<open>\<^verbatim>\<open>open()\<close> raises this error\<close>

record env =
  secrets_file :: bool
  secrets :: "string \<rightharpoonup> string"
  genai_Client :: "string \<Rightarrow> Client outcome"
  files_upload :: "Client \<Rightarrow> string \<Rightarrow> types_File outcome"
  files_delete :: "Client \<Rightarrow> string \<Rightarrow> unit outcome"
  generate_content :: "Client \<Rightarrow> string \<Rightarrow> types_File \<Rightarrow> string \<Rightarrow> string option outcome"
  odd_name :: "string \<Rightarrow> target"

text \<open>
  The elements a function decorated with \<^verbatim>\<open>@st.cache_resource\<close> showed while its body
  ran are stored with the value it returned, and shown again whenever a later call is
  answered from the memo table.
\<close>

datatype element =
    ElError string | ElWarning string | ElToast string | ElInfo string | ElSuccess string

fun replay :: "element \<Rightarrow> event" where
  "replay (ElError m) = StError m"
| "replay (ElWarning m) = StWarning m"
| "replay (ElToast m) = StToast m"
| "replay (ElInfo m) = StInfo m"
| "replay (ElSuccess m) = StSuccess m"

fun recorded :: "event list \<Rightarrow> element list" where
  "recorded [] = []"
| "recorded (StError m # evs) = ElError m # recorded evs"
| "recorded (StWarning m # evs) = ElWarning m # recorded evs"
| "recorded (StToast m # evs) = ElToast m # recorded evs"
| "recorded (StInfo m # evs) = ElInfo m # recorded evs"
| "recorded (StSuccess m # evs) = ElSuccess m # recorded evs"
| "recorded (ev # evs) = recorded evs"

text \<open>
  The state of the server process: the memo tables of the functions decorated with
  \<^verbatim>\<open>@st.cache_resource\<close> (shared by all sessions and reruns of the process; keyed by the
  arguments whose names do not start with an underscore; a call that raises stores
  nothing), the directory \<^verbatim>\<open>temp_uploads\<close> of the working directory (\<open>None\<close> when it
  does not exist, otherwise its entries by file name; it holds files only), and the trace.
\<close>

record world =
  initialize_client_cache :: "(Client option \<times> string option) option"
  upload_document_cache :: "UploadedFile \<rightharpoonup> types_File option \<times> element list"
  delete_uploaded_file_cache :: "types_File \<rightharpoonup> element list"
  temp_uploads :: "(string \<times> string) list option"
  trace :: "event list"

definition emit :: "event \<Rightarrow> world \<Rightarrow> world" where
  "emit ev w = w\<lparr>trace := trace w @ [ev]\<rparr>"

text \<open>A hit of a memo table shows the stored elements again.\<close>

definition replay_elements :: "element list \<Rightarrow> world \<Rightarrow> world" where
  "replay_elements shown w = w\<lparr>trace := trace w @ map replay shown\<rparr>"

text \<open>What a body showed, given the process before and after it.\<close>

definition elements_since :: "world \<Rightarrow> world \<Rightarrow> element list" where
  "elements_since w w' = recorded (drop (length (trace w)) (trace w'))"

subsection \<open>The local directory \<^verbatim>\<open>temp_uploads\<close>\<close>

text \<open>Paths are POSIX paths, relative to the working directory of the process.\<close>

definition temp_dir :: string where
  "temp_dir = ''temp_uploads''"

text \<open>
  A plain file name: one path component that names a file. For such a name
  \<^verbatim>\<open>temp_dir / file_name\<close> is the entry of that name in the directory.
\<close>

definition plain_name :: "string \<Rightarrow> bool" where
  "plain_name n =
     (n \<noteq> [] \<and> n \<noteq> ''.'' \<and> n \<noteq> ''..'' \<and> CHR ''/'' \<notin> set n \<and> CHR 0x00 \<notin> set n \<and>
      length n \<le> 255)"

text \<open>One plain name below another, as in \<^verbatim>\<open>sub/x.txt\<close>.\<close>

definition nested_name :: "string \<Rightarrow> bool" where
  "nested_name n =
     (CHR ''/'' \<in> set n \<and> plain_name (takeWhile (\<lambda>c. c \<noteq> CHR ''/'') n) \<and>
      plain_name (tl (dropWhile (\<lambda>c. c \<noteq> CHR ''/'') n)))"

text \<open>
  Where \<^verbatim>\<open>temp_file_path = temp_dir / file_name\<close> leads when it is opened for writing.
  With an empty name the path is the directory itself.
\<close>

definition locate :: "env \<Rightarrow> string \<Rightarrow> target" where
  "locate e fname =
     (if plain_name fname then Entry fname
      else if fname = [] then Unopenable ''IsADirectoryError''
      else if nested_name fname then Nested (takeWhile (\<lambda>c. c \<noteq> CHR ''/'') fname)
      else odd_name e fname)"

text \<open>The path of an entry of the directory, as a string.\<close>

definition entry_path :: "string \<Rightarrow> string" where
  "entry_path n = temp_dir @ ''/'' @ n"

text \<open>\<^verbatim>\<open>temp_dir.mkdir(exist_ok=True)\<close>\<close>

definition mkdir_exist_ok :: "world \<Rightarrow> world" where
  "mkdir_exist_ok w =
     emit (Mkdir temp_dir)
       (case temp_uploads w of
          None \<Rightarrow> w\<lparr>temp_uploads := Some []\<rparr>
        | Some es \<Rightarrow> w)"

text \<open>
  \<^verbatim>\<open>with open(temp_file_path, "wb") as f: f.write(data)\<close>. An entry is created or
  truncated; a path below an entry cannot be opened, because the entry is missing or is a
  file; a file outside the directory is written where it is. When the file was opened, the
  value returned here is \<^verbatim>\<open>str(temp_file_path)\<close>, which the upload call receives.
\<close>

definition open_write :: "target \<Rightarrow> string \<Rightarrow> world \<Rightarrow> string outcome \<times> world" where
  "open_write t data w =
     (case t of
        Entry n \<Rightarrow>
          (case temp_uploads w of
             None \<Rightarrow> (Raises ''FileNotFoundError'', w)
           | Some es \<Rightarrow>
               (Returns (entry_path n),
                emit (OpenWrite (entry_path n) data)
                  (w\<lparr>temp_uploads := Some ((n, data) # filter (\<lambda>e. fst e \<noteq> n) es)\<rparr>)))
      | Nested n \<Rightarrow>
          (case temp_uploads w of
             None \<Rightarrow> (Raises ''FileNotFoundError'', w)
           | Some es \<Rightarrow>
               if n \<in> fst ` set es then (Raises ''NotADirectoryError'', w)
               else (Raises ''FileNotFoundError'', w))
      | Outside path \<Rightarrow> (Returns path, emit (OpenWrite path data) w)
      | Unopenable x \<Rightarrow> (Raises x, w))"

text \<open>\<^verbatim>\<open>os.remove(temp_file_path)\<close>: raises when there is no such file.\<close>

definition os_remove :: "target \<Rightarrow> world \<Rightarrow> unit outcome \<times> world" where
  "os_remove t w =
     (case t of
        Entry n \<Rightarrow>
          (case temp_uploads w of
             None \<Rightarrow> (Raises ''FileNotFoundError'', w)
           | Some es \<Rightarrow>
               if n \<in> fst ` set es
               then (Returns (),
                     emit (OsRemove (entry_path n))
                       (w\<lparr>temp_uploads := Some (filter (\<lambda>e. fst e \<noteq> n) es)\<rparr>))
               else (Raises ''FileNotFoundError'', w))
      | Outside path \<Rightarrow> (Returns (), emit (OsRemove path) w)
      | Nested n \<Rightarrow> (Raises ''FileNotFoundError'', w)
      | Unopenable x \<Rightarrow> (Raises ''FileNotFoundError'', w))"

text \<open>\<^verbatim>\<open>os.listdir(temp_dir)\<close>\<close>

definition os_listdir :: "world \<Rightarrow> string list outcome" where
  "os_listdir w =
     (case temp_uploads w of
        None \<Rightarrow> Raises ''FileNotFoundError''
      | Some es \<Rightarrow> Returns (map fst es))"

text \<open>\<^verbatim>\<open>os.rmdir(temp_dir)\<close>: raises unless the directory exists and is empty.\<close>

definition os_rmdir :: "world \<Rightarrow> unit outcome \<times> world" where
  "os_rmdir w =
     (case temp_uploads w of
        None \<Rightarrow> (Raises ''FileNotFoundError'', w)
      | Some es \<Rightarrow>
          if es = [] then (Returns (), emit (OsRmdir temp_dir) (w\<lparr>temp_uploads := None\<rparr>))
          else (Raises ''OSError'', w))"

section \<open>engine.py\<close>

subsection \<open>\<^verbatim>\<open>initialize_client\<close>\<close>

text \<open>The stop-sign emoji that opens the message, as its UTF-8 bytes.\<close>

definition stop_sign :: string where
  "stop_sign = [CHR 0xF0, CHR 0x9F, CHR 0x9B, CHR 0x91]"

definition key_not_found_message :: string where
  "key_not_found_message =
     stop_sign @ ''KEY not found in Streamlit secrets. '' @
     ''Please create a .streamlit/secrets.toml file and add your key.''"

text \<open>
  The body of the function. The lookup \<^verbatim>\<open>st.secrets["GEMINI_API_KEY"]\<close> raises
  \<^verbatim>\<open>StreamlitSecretNotFoundError\<close> when there is no secrets file; that is not a
  \<^verbatim>\<open>KeyError\<close>, so it leaves the function. Otherwise the first \<^verbatim>\<open>try\<close> raises
  \<^verbatim>\<open>KeyError\<close> when the key is missing or is one of the two placeholders, and its
  handler returns the pair of \<^verbatim>\<open>None\<close> and the message; the second \<^verbatim>\<open>try\<close> wraps the
  SDK's constructor.
\<close>

definition initialize_client_body ::
  "env \<Rightarrow> world \<Rightarrow> (Client option \<times> string option) outcome \<times> world" where
  "initialize_client_body e w =
     (if \<not> secrets_file e then (Raises ''StreamlitSecretNotFoundError'', w)
      else
        (case secrets e ''GEMINI_API_KEY'' of
           None \<Rightarrow> (Returns (None, Some key_not_found_message), w)
         | Some k \<Rightarrow>
             if k \<in> set [''YOUR_ACTUAL_API_KEY'', '''']
             then (Returns (None, Some key_not_found_message), w)
             else
               (case genai_Client e k of
                  Returns client \<Rightarrow> (Returns (Some client, None), emit (GenaiClient k) w)
                | Raises x \<Rightarrow>
                    (Returns (None, Some (''Error initializing Gemini Client: '' @ x)),
                     emit (GenaiClient k) w))))"

text \<open>
  \<^verbatim>\<open>@st.cache_resource\<close> on a function without arguments: the first value returned is
  stored for the process and every later call returns it without running the body. A call
  whose body raises stores nothing. The body shows no element, so there is nothing to
  replay.
\<close>

definition initialize_client ::
  "env \<Rightarrow> world \<Rightarrow> (Client option \<times> string option) outcome \<times> world" where
  "initialize_client e w =
     (case initialize_client_cache w of
        Some r \<Rightarrow> (Returns r, w)
      | None \<Rightarrow>
          (case initialize_client_body e w of
             (Returns r, w') \<Rightarrow> (Returns r, w'\<lparr>initialize_client_cache := Some r\<rparr>)
           | (Raises x, w') \<Rightarrow> (Raises x, w')))"

subsection \<open>\<^verbatim>\<open>upload_document\<close>\<close>

text \<open>
  The \<^verbatim>\<open>finally\<close> block: remove the transient file, then remove the directory when
  \<^verbatim>\<open>os.listdir\<close> is empty. An exception of the block replaces the pending result.
\<close>

definition upload_finally :: "target \<Rightarrow> 'a outcome \<Rightarrow> world \<Rightarrow> 'a outcome \<times> world" where
  "upload_finally temp_file_path pending w =
     (case os_remove temp_file_path w of
        (Raises x, w1) \<Rightarrow> (Raises x, w1)
      | (Returns u, w1) \<Rightarrow>
          (case os_listdir w1 of
             Raises x \<Rightarrow> (Raises x, w1)
           | Returns names \<Rightarrow>
               if names = []
               then (case os_rmdir w1 of
                       (Raises x, w2) \<Rightarrow> (Raises x, w2)
                     | (Returns u', w2) \<Rightarrow> (pending, w2))
               else (pending, w1)))"

text \<open>
  The file is written before the \<^verbatim>\<open>try\<close>: an exception of \<^verbatim>\<open>open()\<close> leaves the
  function at once, with the directory created and nothing cleaned up.
\<close>

definition upload_document_body ::
  "env \<Rightarrow> Client \<Rightarrow> UploadedFile \<Rightarrow> world \<Rightarrow> types_File option outcome \<times> world" where
  "upload_document_body e client uploaded_file_obj w =
     (let temp_file_path = locate e (name uploaded_file_obj);
          w1 = mkdir_exist_ok w
      in case open_write temp_file_path (getbuffer uploaded_file_obj) w1 of
           (Raises x, w2) \<Rightarrow> (Raises x, w2)
         | (Returns path, w2) \<Rightarrow>
             (let w3 = emit (FilesUpload path) w2
              in case files_upload e client path of
                   Returns uploaded_file \<Rightarrow>
                     upload_finally temp_file_path (Returns (Some uploaded_file)) w3
                 | Raises x \<Rightarrow>
                     upload_finally temp_file_path (Returns None)
                       (emit (StError (''Error during file upload: '' @ x)) w3)))"

text \<open>
  \<^verbatim>\<open>@st.cache_resource\<close>: \<^verbatim>\<open>_client\<close> is not part of the key, the uploaded file (its
  name and bytes) is. A value the body returned, \<^verbatim>\<open>None\<close> included, is stored together
  with the elements the body showed; on a hit the body does not run and those elements
  are shown again.
\<close>

definition upload_document ::
  "env \<Rightarrow> Client \<Rightarrow> UploadedFile \<Rightarrow> world \<Rightarrow> types_File option outcome \<times> world" where
  "upload_document e client uploaded_file_obj w =
     (case upload_document_cache w uploaded_file_obj of
        Some (r, shown) \<Rightarrow> (Returns r, replay_elements shown w)
      | None \<Rightarrow>
          (case upload_document_body e client uploaded_file_obj w of
             (Returns r, w') \<Rightarrow>
               (Returns r,
                w'\<lparr>upload_document_cache :=
                     (upload_document_cache w')(uploaded_file_obj \<mapsto> (r, elements_since w w'))\<rparr>)
           | (Raises x, w') \<Rightarrow> (Raises x, w')))"

subsection \<open>\<^verbatim>\<open>process_document\<close>\<close>

definition model_name :: string where
  "model_name = ''gemini-2.5-flash''"

definition process_document ::
  "env \<Rightarrow> Client \<Rightarrow> types_File \<Rightarrow> string \<Rightarrow> world \<Rightarrow> string option outcome \<times> world" where
  "process_document e client uploaded_file prompt w =
     (let w1 = emit (GenerateContent model_name uploaded_file prompt) w
      in case generate_content e client model_name uploaded_file prompt of
           Returns text \<Rightarrow> (Returns text, w1)
         | Raises x \<Rightarrow>
             (Returns (Some ''Failed to get response from Gemini.''),
              emit (StError (''Error during content generation: '' @ x)) w1))"

subsection \<open>\<^verbatim>\<open>delete_uploaded_file\<close>\<close>

text \<open>Not cached in engine.py (the decorator was removed there).\<close>

definition delete_uploaded_file ::
  "env \<Rightarrow> Client \<Rightarrow> types_File \<Rightarrow> world \<Rightarrow> unit outcome \<times> world" where
  "delete_uploaded_file e client uploaded_file w =
     (let w1 = emit (FilesDelete (file_name uploaded_file)) w
      in case files_delete e client (file_name uploaded_file) of
           Returns u \<Rightarrow>
             (Returns (),
              emit (StToast (''Clean up complete. File '' @ file_name uploaded_file @ '' deleted.'')) w1)
         | Raises x \<Rightarrow>
             (Returns (),
              emit (StWarning (''Failed to delete file '' @ file_name uploaded_file @ ''. Error: '' @ x)) w1))"

section \<open>app.py\<close>

subsection \<open>Session state and widget values\<close>

text \<open>
  \<^verbatim>\<open>st.session_state\<close> is a dict kept per browser session. A field is \<open>None\<close> while its
  key is absent; \<open>uploaded_file_object = Some None\<close> is the key present with the value
  \<^verbatim>\<open>None\<close>. The last two keys are written by document_analyzer_app.py only
  (there they are called \<^verbatim>\<open>client\<close> and \<^verbatim>\<open>client_error\<close>).
\<close>

record session_state =
  uploaded_file_object :: "types_File option option"
  cleanup_done :: "bool option"
  messages :: "message list option"
  session_client :: "Client option option"
  session_client_error :: "string option"

text \<open>
  What the widgets return in one script run: the file picker, the two buttons (true only
  in the run their click started) and the chat box.
\<close>

record inputs =
  uploaded_file_input :: "UploadedFile option"
  process_clicked :: bool
  manual_delete_clicked :: bool
  chat_input :: "string option"

text \<open>
  How a run of the script ends: it reaches its end (or a plain \<^verbatim>\<open>return\<close>),
  \<^verbatim>\<open>st.rerun()\<close> stops it, or an exception nobody caught stops it.
\<close>

datatype flow = Normal | Rerun | Uncaught string

subsection \<open>\<^verbatim>\<open>chat_with_document\<close>\<close>

definition greeting :: message where
  "greeting =
     \<lparr>role = ''assistant'',
      content = Some ''Document analysis ready! Ask me any question about the content.''\<rparr>"

definition render_messages :: "message list \<Rightarrow> world \<Rightarrow> world" where
  "render_messages ms w = fold (\<lambda>m. emit (ChatMessage (role m) (content m))) ms w"

definition chat_with_document ::
  "env \<Rightarrow> Client \<Rightarrow> string option \<Rightarrow> session_state \<Rightarrow> world
     \<Rightarrow> unit outcome \<times> session_state \<times> world" where
  "chat_with_document e c chat s w =
     (case uploaded_file_object s of
        None \<Rightarrow>
          (Returns (), s, emit (StInfo ''Upload a document in the sidebar to begin chatting.'') w)
      | Some None \<Rightarrow>
          (Returns (), s, emit (StInfo ''Upload a document in the sidebar to begin chatting.'') w)
      | Some (Some file_obj) \<Rightarrow>
          (let ms = (case messages s of None \<Rightarrow> [greeting] | Some ms0 \<Rightarrow> ms0);
               s1 = s\<lparr>messages := Some ms\<rparr>;
               w1 = render_messages ms w
           in case chat of
                None \<Rightarrow> (Returns (), s1, w1)
              | Some prompt \<Rightarrow>
                  if prompt = [] then (Returns (), s1, w1)
                  else
                    (let user_message = \<lparr>role = ''user'', content = Some prompt\<rparr>;
                         s2 = s1\<lparr>messages := Some (ms @ [user_message])\<rparr>;
                         w2 = emit (ChatMessage ''user'' (Some prompt)) w1
                     in case process_document e c file_obj prompt w2 of
                          (Raises x, w3) \<Rightarrow> (Raises x, s2, w3)
                        | (Returns response, w3) \<Rightarrow>
                            (Returns (),
                             s2\<lparr>messages :=
                                  Some (ms @ [user_message,
                                              \<lparr>role = ''assistant'', content = response\<rparr>])\<rparr>,
                             emit (ChatMessage ''assistant'' response) w3))))"

subsection \<open>\<^verbatim>\<open>main\<close>\<close>

text \<open>Lines 74 to 77: the two keys are created when absent.\<close>

definition init_session_state :: "session_state \<Rightarrow> session_state" where
  "init_session_state s =
     (let s1 = (if uploaded_file_object s = None then s\<lparr>uploaded_file_object := Some None\<rparr> else s)
      in if cleanup_done s1 = None then s1\<lparr>cleanup_done := Some False\<rparr> else s1)"

text \<open>
  Lines 93 to 108, the handler of the button "Process Document". Reading an attribute of
  \<^verbatim>\<open>st.session_state\<close> whose key is absent raises \<^verbatim>\<open>AttributeError\<close>. A handle is
  truthy, \<^verbatim>\<open>None\<close> is not.
\<close>

definition sidebar_process_document ::
  "env \<Rightarrow> Client \<Rightarrow> inputs \<Rightarrow> session_state \<Rightarrow> world \<Rightarrow> flow \<times> session_state \<times> world" where
  "sidebar_process_document e c inp s w =
     (case uploaded_file_input inp of
        None \<Rightarrow> (Normal, s, w)
      | Some uploaded_file \<Rightarrow>
          if \<not> process_clicked inp then (Normal, s, w)
          else
            (case uploaded_file_object s of
               None \<Rightarrow> (Uncaught ''AttributeError'', s, w)
             | Some held \<Rightarrow>
                 (case (case held of
                          None \<Rightarrow> (Returns (), w)
                        | Some previous \<Rightarrow> delete_uploaded_file e c previous w) of
                    (Raises x, w1) \<Rightarrow> (Uncaught x, s, w1)
                  | (Returns u, w1) \<Rightarrow>
                      (case upload_document e c uploaded_file w1 of
                         (Raises x, w2) \<Rightarrow> (Uncaught x, s, w2)
                       | (Returns None, w2) \<Rightarrow> (Normal, s, w2)
                       | (Returns (Some file_obj), w2) \<Rightarrow>
                           (Rerun,
                            s\<lparr>uploaded_file_object := Some (Some file_obj),
                              messages := Some [],
                              cleanup_done := Some False\<rparr>,
                            w2)))))"

text \<open>Lines 115 to 123, the handler of the button "Manually Delete File from API".\<close>

definition sidebar_manual_delete ::
  "env \<Rightarrow> Client \<Rightarrow> inputs \<Rightarrow> session_state \<Rightarrow> world \<Rightarrow> flow \<times> session_state \<times> world" where
  "sidebar_manual_delete e c inp s w =
     (case uploaded_file_object s of
        None \<Rightarrow> (Uncaught ''AttributeError'', s, w)
      | Some None \<Rightarrow> (Normal, s, w)
      | Some (Some held) \<Rightarrow>
          (case cleanup_done s of
             None \<Rightarrow> (Uncaught ''AttributeError'', s, w)
           | Some done \<Rightarrow>
               if done \<or> \<not> manual_delete_clicked inp then (Normal, s, w)
               else
                 (case delete_uploaded_file e c held w of
                    (Raises x, w1) \<Rightarrow> (Uncaught x, s, w1)
                  | (Returns u, w1) \<Rightarrow>
                      (Rerun,
                       s\<lparr>uploaded_file_object := Some None,
                         cleanup_done := Some True,
                         messages := Some []\<rparr>,
                       w1))))"

text \<open>Line 90: the notice shown while a handle is held and the picker is empty.\<close>

definition file_loaded_warning :: "inputs \<Rightarrow> session_state \<Rightarrow> world \<Rightarrow> world" where
  "file_loaded_warning inp s w =
     (case uploaded_file_object s of
        Some (Some held) \<Rightarrow>
          if uploaded_file_input inp = None
          then emit (StWarning ''File is loaded. To upload a new file, clear the current one.'') w
          else w
      | _ \<Rightarrow> w)"

text \<open>
  The script. The page furniture (title, dividers, headers, spinners) is left out.
  \<^verbatim>\<open>"..." + error_message\<close> raises \<^verbatim>\<open>TypeError\<close> when the message is \<^verbatim>\<open>None\<close>.
\<close>

definition main :: "env \<Rightarrow> inputs \<Rightarrow> session_state \<Rightarrow> world \<Rightarrow> flow \<times> session_state \<times> world" where
  "main e inp s w =
     (case initialize_client e w of
        (Raises x, w0) \<Rightarrow> (Uncaught x, s, w0)
      | (Returns (None, error_message), w0) \<Rightarrow>
          (case error_message of
             None \<Rightarrow> (Uncaught ''TypeError'', s, w0)
           | Some m \<Rightarrow>
               (Normal, s, emit (StError (stop_sign @ '' Client failed to initialize. '' @ m)) w0))
      | (Returns (Some c, error_message), w0) \<Rightarrow>
          (let s1 = init_session_state s;
               w1 = file_loaded_warning inp s1 w0
           in case sidebar_process_document e c inp s1 w1 of
                (Normal, s2, w2) \<Rightarrow>
                  (case sidebar_manual_delete e c inp s2 w2 of
                     (Normal, s3, w3) \<Rightarrow>
                       (case chat_with_document e c (chat_input inp) s3 w3 of
                          (Raises x, s4, w4) \<Rightarrow> (Uncaught x, s4, w4)
                        | (Returns u, s4, w4) \<Rightarrow> (Normal, s4, w4))
                   | stopped \<Rightarrow> stopped)
              | stopped \<Rightarrow> stopped))"

text \<open>
  Streamlit's execution model: after \<^verbatim>\<open>st.rerun()\<close> the script runs again from the top on
  the same session state; the file picker keeps its file, the buttons and the chat box
  are back to their idle values.
\<close>

definition rerun_inputs :: "inputs \<Rightarrow> inputs" where
  "rerun_inputs inp = inp\<lparr>process_clicked := False, manual_delete_clicked := False, chat_input := None\<rparr>"

definition script_run :: "env \<Rightarrow> inputs \<Rightarrow> session_state \<Rightarrow> world \<Rightarrow> flow \<times> session_state \<times> world" where
  "script_run e inp s w =
     (case main e inp s w of
        (Rerun, s', w') \<Rightarrow> main e (rerun_inputs inp) s' w'
      | ended \<Rightarrow> ended)"

text \<open>A user's interaction with one session: one script run per widget event.\<close>

fun script_runs :: "(env \<times> inputs) list \<Rightarrow> session_state \<Rightarrow> world \<Rightarrow> session_state \<times> world" where
  "script_runs [] s w = (s, w)"
| "script_runs ((e, inp) # rest) s w =
     (case script_run e inp s w of (fl, s', w') \<Rightarrow> script_runs rest s' w')"

text \<open>A new browser session, and a freshly started process on a clean working directory.\<close>

definition new_session :: session_state where
  "new_session =
     \<lparr>uploaded_file_object = None, cleanup_done = None, messages = None,
      session_client = None, session_client_error = None\<rparr>"

definition new_process :: world where
  "new_process =
     \<lparr>initialize_client_cache = None, upload_document_cache = Map.empty,
      delete_uploaded_file_cache = Map.empty, temp_uploads = None, trace = []\<rparr>"

section \<open>document_analyzer_app.py\<close>

text \<open>
  The single-file variant of the application. Its \<^verbatim>\<open>process_document\<close> and
  \<^verbatim>\<open>chat_with_document\<close> are the same text as in engine.py and app.py, so the
  definitions above stand for them; the functions that differ are modelled here, their
  names prefixed with \<open>daa\<close>.
\<close>

subsection \<open>\<^verbatim>\<open>initialize_client\<close>\<close>

definition daa_key_not_found_message :: string where
  "daa_key_not_found_message =
     stop_sign @ '' GEMINI_API_KEY not found in Streamlit secrets. '' @
     ''Please create a .streamlit/secrets.toml file and add your key.''"

text \<open>
  The client is kept in the session state under the key \<^verbatim>\<open>client\<close>; the function
  returns the client alone and leaves the reason of a failure under \<^verbatim>\<open>client_error\<close>.
  The key read from the secrets is handed to the constructor as it is. Without a secrets
  file the lookup raises an error that is not a \<^verbatim>\<open>KeyError\<close>: it leaves the function
  and nothing is stored.
\<close>

definition daa_initialize_client ::
  "env \<Rightarrow> session_state \<Rightarrow> world \<Rightarrow> Client option outcome \<times> session_state \<times> world" where
  "daa_initialize_client e s w =
     (case session_client s of
        Some stored \<Rightarrow> (Returns stored, s, w)
      | None \<Rightarrow>
          if \<not> secrets_file e then (Raises ''StreamlitSecretNotFoundError'', s, w)
          else
            (case secrets e ''GEMINI_API_KEY'' of
               None \<Rightarrow>
                 (Returns None,
                  s\<lparr>session_client_error := Some daa_key_not_found_message,
                    session_client := Some None\<rparr>,
                  w)
             | Some k \<Rightarrow>
                 (case genai_Client e k of
                    Returns client \<Rightarrow>
                      (Returns (Some client), s\<lparr>session_client := Some (Some client)\<rparr>,
                       emit (GenaiClient k) w)
                  | Raises x \<Rightarrow>
                      (Returns None,
                       s\<lparr>session_client_error := Some x, session_client := Some None\<rparr>,
                       emit (GenaiClient k) w))))"

subsection \<open>\<^verbatim>\<open>upload_document\<close>\<close>

text \<open>As in engine.py, with two more notices: one before the \<^verbatim>\<open>try\<close>, one after the
  upload call inside it.\<close>

definition daa_upload_document_body ::
  "env \<Rightarrow> Client \<Rightarrow> UploadedFile \<Rightarrow> world \<Rightarrow> types_File option outcome \<times> world" where
  "daa_upload_document_body e client uploaded_file_obj w =
     (let temp_file_path = locate e (name uploaded_file_obj);
          w1 = mkdir_exist_ok w
      in case open_write temp_file_path (getbuffer uploaded_file_obj) w1 of
           (Raises x, w2) \<Rightarrow> (Raises x, w2)
         | (Returns path, w2) \<Rightarrow>
             (let w3 = emit (FilesUpload path)
                         (emit (StInfo (''Uploading file: '' @ name uploaded_file_obj @
                                        '' to Google File API...'')) w2)
              in case files_upload e client path of
                   Returns uploaded_file \<Rightarrow>
                     upload_finally temp_file_path (Returns (Some uploaded_file))
                       (emit (StSuccess (''File uploaded successfully! Name: '' @
                                         file_name uploaded_file)) w3)
                 | Raises x \<Rightarrow>
                     upload_finally temp_file_path (Returns None)
                       (emit (StError (''Error during file upload: '' @ x)) w3)))"

definition daa_upload_document ::
  "env \<Rightarrow> Client \<Rightarrow> UploadedFile \<Rightarrow> world \<Rightarrow> types_File option outcome \<times> world" where
  "daa_upload_document e client uploaded_file_obj w =
     (case upload_document_cache w uploaded_file_obj of
        Some (r, shown) \<Rightarrow> (Returns r, replay_elements shown w)
      | None \<Rightarrow>
          (case daa_upload_document_body e client uploaded_file_obj w of
             (Returns r, w') \<Rightarrow>
               (Returns r,
                w'\<lparr>upload_document_cache :=
                     (upload_document_cache w')(uploaded_file_obj \<mapsto> (r, elements_since w w'))\<rparr>)
           | (Raises x, w') \<Rightarrow> (Raises x, w')))"

subsection \<open>\<^verbatim>\<open>delete_uploaded_file\<close>\<close>

text \<open>
  Here the function carries \<^verbatim>\<open>@st.cache_resource\<close>: the handle is the key, the value
  returned is \<^verbatim>\<open>None\<close>, and a second call with a handle already seen by the process does
  not run the body; it only shows again the toast or the warning of the first call. The
  body is the text of engine.py's function.
\<close>

definition daa_delete_uploaded_file ::
  "env \<Rightarrow> Client \<Rightarrow> types_File \<Rightarrow> world \<Rightarrow> unit outcome \<times> world" where
  "daa_delete_uploaded_file e client uploaded_file w =
     (case delete_uploaded_file_cache w uploaded_file of
        Some shown \<Rightarrow> (Returns (), replay_elements shown w)
      | None \<Rightarrow>
          (case delete_uploaded_file e client uploaded_file w of
             (Returns r, w') \<Rightarrow>
               (Returns r,
                w'\<lparr>delete_uploaded_file_cache :=
                     (delete_uploaded_file_cache w')(uploaded_file \<mapsto> elements_since w w')\<rparr>)
           | (Raises x, w') \<Rightarrow> (Raises x, w')))"

subsection \<open>\<^verbatim>\<open>main\<close>\<close>

text \<open>Lines 165 to 176 and 183 to 189: the two handlers, the same text as in app.py, calling
  the functions of this file.\<close>

definition daa_sidebar_process_document ::
  "env \<Rightarrow> Client \<Rightarrow> inputs \<Rightarrow> session_state \<Rightarrow> world \<Rightarrow> flow \<times> session_state \<times> world" where
  "daa_sidebar_process_document e c inp s w =
     (case uploaded_file_input inp of
        None \<Rightarrow> (Normal, s, w)
      | Some uploaded_file \<Rightarrow>
          if \<not> process_clicked inp then (Normal, s, w)
          else
            (case uploaded_file_object s of
               None \<Rightarrow> (Uncaught ''AttributeError'', s, w)
             | Some held \<Rightarrow>
                 (case (case held of
                          None \<Rightarrow> (Returns (), w)
                        | Some previous \<Rightarrow> daa_delete_uploaded_file e c previous w) of
                    (Raises x, w1) \<Rightarrow> (Uncaught x, s, w1)
                  | (Returns u, w1) \<Rightarrow>
                      (case daa_upload_document e c uploaded_file w1 of
                         (Raises x, w2) \<Rightarrow> (Uncaught x, s, w2)
                       | (Returns None, w2) \<Rightarrow> (Normal, s, w2)
                       | (Returns (Some file_obj), w2) \<Rightarrow>
                           (Rerun,
                            s\<lparr>uploaded_file_object := Some (Some file_obj),
                              messages := Some [],
                              cleanup_done := Some False\<rparr>,
                            w2)))))"

definition daa_sidebar_manual_delete ::
  "env \<Rightarrow> Client \<Rightarrow> inputs \<Rightarrow> session_state \<Rightarrow> world \<Rightarrow> flow \<times> session_state \<times> world" where
  "daa_sidebar_manual_delete e c inp s w =
     (case uploaded_file_object s of
        None \<Rightarrow> (Uncaught ''AttributeError'', s, w)
      | Some None \<Rightarrow> (Normal, s, w)
      | Some (Some held) \<Rightarrow>
          (case cleanup_done s of
             None \<Rightarrow> (Uncaught ''AttributeError'', s, w)
           | Some done \<Rightarrow>
               if done \<or> \<not> manual_delete_clicked inp then (Normal, s, w)
               else
                 (case daa_delete_uploaded_file e c held w of
                    (Raises x, w1) \<Rightarrow> (Uncaught x, s, w1)
                  | (Returns u, w1) \<Rightarrow>
                      (Rerun,
                       s\<lparr>uploaded_file_object := Some None,
                         cleanup_done := Some True,
                         messages := Some []\<rparr>,
                       w1))))"

definition daa_main :: "env \<Rightarrow> inputs \<Rightarrow> session_state \<Rightarrow> world \<Rightarrow> flow \<times> session_state \<times> world" where
  "daa_main e inp s w =
     (case daa_initialize_client e s w of
        (Raises x, s0, w0) \<Rightarrow> (Uncaught x, s0, w0)
      | (Returns None, s0, w0) \<Rightarrow>
          (let w1 = emit (StError (stop_sign @
                      '' Gemini Client failed to initialize. Please check your API key setup.'')) w0
           in (Normal, s0,
               (case session_client_error s0 of None \<Rightarrow> w1 | Some m \<Rightarrow> emit (StCode m) w1)))
      | (Returns (Some c), s0, w0) \<Rightarrow>
          (let s1 = init_session_state s0;
               w1 = file_loaded_warning inp s1 w0
           in case daa_sidebar_process_document e c inp s1 w1 of
                (Normal, s2, w2) \<Rightarrow>
                  (case daa_sidebar_manual_delete e c inp s2 w2 of
                     (Normal, s3, w3) \<Rightarrow>
                       (case chat_with_document e c (chat_input inp) s3 w3 of
                          (Raises x, s4, w4) \<Rightarrow> (Uncaught x, s4, w4)
                        | (Returns u, s4, w4) \<Rightarrow> (Normal, s4, w4))
                   | stopped \<Rightarrow> stopped)
              | stopped \<Rightarrow> stopped))"

definition daa_script_run ::
  "env \<Rightarrow> inputs \<Rightarrow> session_state \<Rightarrow> world \<Rightarrow> flow \<times> session_state \<times> world" where
  "daa_script_run e inp s w =
     (case daa_main e inp s w of
        (Rerun, s', w') \<Rightarrow> daa_main e (rerun_inputs inp) s' w'
      | ended \<Rightarrow> ended)"

section \<open>Vocabulary of the statements\<close>

text \<open>
  What is in \<^verbatim>\<open>temp_uploads\<close> besides the entry called \<open>fname\<close>; what the upload call's
  outcome makes \<^verbatim>\<open>upload_document\<close> return, and what it makes it report.
\<close>

definition others_in_temp_dir :: "string \<Rightarrow> world \<Rightarrow> (string \<times> string) list" where
  "others_in_temp_dir fname w =
     filter (\<lambda>e. fst e \<noteq> fname) (case temp_uploads w of None \<Rightarrow> [] | Some es \<Rightarrow> es)"

definition upload_report :: "types_File outcome \<Rightarrow> event list" where
  "upload_report r = (case r of Returns h \<Rightarrow> [] | Raises x \<Rightarrow> [StError (''Error during file upload: '' @ x)])"

definition upload_value :: "types_File outcome \<Rightarrow> types_File option" where
  "upload_value r = (case r of Returns h \<Rightarrow> Some h | Raises x \<Rightarrow> None)"

text \<open>The element \<^verbatim>\<open>upload_document\<close> of engine.py shows for an outcome of the upload call.\<close>

definition upload_elements :: "types_File outcome \<Rightarrow> element list" where
  "upload_elements r =
     (case r of Returns h \<Rightarrow> [] | Raises x \<Rightarrow> [ElError (''Error during file upload: '' @ x)])"

text \<open>The events a run added to the trace, and projections of a list of events.\<close>

definition new_events :: "world \<Rightarrow> world \<Rightarrow> event list" where
  "new_events w w' = drop (length (trace w)) (trace w')"

fun sdk_call :: "event \<Rightarrow> bool" where
  "sdk_call (GenaiClient k) = True"
| "sdk_call (FilesUpload path) = True"
| "sdk_call (FilesDelete n) = True"
| "sdk_call (GenerateContent m f prompt) = True"
| "sdk_call ev = False"

fun written_paths :: "event list \<Rightarrow> string list" where
  "written_paths [] = []"
| "written_paths (OpenWrite path data # evs) = path # written_paths evs"
| "written_paths (ev # evs) = written_paths evs"

fun chat_messages_shown :: "event list \<Rightarrow> (string \<times> string option) list" where
  "chat_messages_shown [] = []"
| "chat_messages_shown (ChatMessage r t # evs) = (r, t) # chat_messages_shown evs"
| "chat_messages_shown (ev # evs) = chat_messages_shown evs"

text \<open>The invariant of the session state that links the cleanup flag and the handle.\<close>

definition cleanup_invariant :: "session_state \<Rightarrow> bool" where
  "cleanup_invariant s = (cleanup_done s = Some True \<longrightarrow> uploaded_file_object s = Some None)"



section \<open>Concrete environments and inputs\<close>

text \<open>
  A reachable remote service, the same service during an outage, secrets stores without
  a usable key, some files and widget values. The examples below run on them; none of
  them uses a file name that the environment has to interpret.
\<close>

definition remote_up :: env where
  "remote_up =
     \<lparr>secrets_file = True,
      secrets = [''GEMINI_API_KEY'' \<mapsto> ''key-123''],
      genai_Client = (\<lambda>k. Returns (Client k)),
      files_upload = (\<lambda>c path. Returns (File (''files/'' @ path))),
      files_delete = (\<lambda>c n. Returns ()),
      generate_content = (\<lambda>c m f prompt. Returns (Some (''About '' @ file_name f))),
      odd_name = (\<lambda>n. Unopenable ''OSError'')\<rparr>"

definition remote_down :: env where
  "remote_down =
     remote_up\<lparr>files_upload := (\<lambda>c path. Raises ''503 UNAVAILABLE''),
               files_delete := (\<lambda>c n. Raises ''503 UNAVAILABLE''),
               generate_content := (\<lambda>c m f prompt. Raises ''503 UNAVAILABLE'')\<rparr>"

definition demo_client :: Client where
  "demo_client = Client ''key-123''"

definition report_pdf :: UploadedFile where
  "report_pdf = UploadedFile ''report.pdf'' ''PDF-1''"

definition click_process :: "UploadedFile \<Rightarrow> inputs" where
  "click_process f =
     \<lparr>uploaded_file_input = Some f, process_clicked = True,
      manual_delete_clicked = False, chat_input = None\<rparr>"

definition secrets_placeholder :: env where
  "secrets_placeholder = remote_up\<lparr>secrets := [''GEMINI_API_KEY'' \<mapsto> ''YOUR_ACTUAL_API_KEY'']\<rparr>"

definition secrets_missing :: env where
  "secrets_missing = remote_up\<lparr>secrets := Map.empty\<rparr>"

text \<open>No secrets file at all.\<close>

definition no_secrets_file :: env where
  "no_secrets_file = remote_up\<lparr>secrets_file := False, secrets := Map.empty\<rparr>"

text \<open>An uploaded file whose name has a directory part.\<close>

definition nested_txt :: UploadedFile where
  "nested_txt = UploadedFile ''sub/x.txt'' ''text''"

definition report_pdf_revised :: UploadedFile where
  "report_pdf_revised = UploadedFile ''report.pdf'' ''PDF-2''"

definition report2_pdf :: UploadedFile where
  "report2_pdf = UploadedFile ''report2.pdf'' ''PDF-3''"

definition notes_txt :: UploadedFile where
  "notes_txt = UploadedFile ''notes.txt'' ''notes''"

definition ask :: "UploadedFile \<Rightarrow> string \<Rightarrow> inputs" where
  "ask f prompt =
     \<lparr>uploaded_file_input = Some f, process_clicked = False,
      manual_delete_clicked = False, chat_input = Some prompt\<rparr>"

definition click_manual_delete :: "UploadedFile \<Rightarrow> inputs" where
  "click_manual_delete f =
     \<lparr>uploaded_file_input = Some f, process_clicked = False,
      manual_delete_clicked = True, chat_input = None\<rparr>"

text \<open>
  A session of document_analyzer_app.py: a first upload, a second click while the service
  is down, and a third click once it is back, each with a file not seen before.
\<close>

definition daa_after_first_upload :: "flow \<times> session_state \<times> world" where
  "daa_after_first_upload = daa_script_run remote_up (click_process report_pdf) new_session new_process"

definition daa_after_outage :: "flow \<times> session_state \<times> world" where
  "daa_after_outage =
     (case daa_after_first_upload of
        (fl, s, w) \<Rightarrow> daa_script_run remote_down (click_process report2_pdf) s w)"

definition daa_after_retry :: "flow \<times> session_state \<times> world" where
  "daa_after_retry =
     (case daa_after_outage of
        (fl, s, w) \<Rightarrow> daa_script_run remote_up (click_process notes_txt) s w)"

text \<open>
  A process whose client has been created, and a session of it that holds a handle.
\<close>

definition warm_process :: world where
  "warm_process = new_process\<lparr>initialize_client_cache := Some (Some demo_client, None)\<rparr>"

definition holding_session :: session_state where
  "holding_session =
     new_session\<lparr>uploaded_file_object := Some (Some (File ''files/h1'')),
                 cleanup_done := Some False, messages := Some []\<rparr>"

text \<open>The run of app.py's \<^verbatim>\<open>main\<close> in which a new session uploads its first file.\<close>

definition first_upload_run :: "flow \<times> session_state \<times> world" where
  "first_upload_run = main remote_up (click_process report_pdf) new_session new_process"

text \<open>A process whose directory \<^verbatim>\<open>temp_uploads\<close> already holds a file of somebody else.\<close>

definition shared_directory :: world where
  "shared_directory = new_process\<lparr>temp_uploads := Some [(''keep.txt'', ''kept'')]\<rparr>"

section \<open>Auxiliary facts\<close>

lemma emit_simps [simp]:
  "trace (emit ev w) = trace w @ [ev]"
  "temp_uploads (emit ev w) = temp_uploads w"
  "initialize_client_cache (emit ev w) = initialize_client_cache w"
  "upload_document_cache (emit ev w) = upload_document_cache w"
  "delete_uploaded_file_cache (emit ev w) = delete_uploaded_file_cache w"
  by (simp_all add: emit_def)

lemma replay_elements_simps [simp]:
  "trace (replay_elements shown w) = trace w @ map replay shown"
  "temp_uploads (replay_elements shown w) = temp_uploads w"
  "initialize_client_cache (replay_elements shown w) = initialize_client_cache w"
  "upload_document_cache (replay_elements shown w) = upload_document_cache w"
  "delete_uploaded_file_cache (replay_elements shown w) = delete_uploaded_file_cache w"
  by (simp_all add: replay_elements_def)

lemma recorded_append:
  "recorded (evs @ evs') = recorded evs @ recorded evs'"
  by (induction evs rule: recorded.induct) simp_all

lemma recorded_upload_report:
  "recorded (upload_report r) = upload_elements r"
  by (simp add: upload_report_def upload_elements_def split: outcome.splits)

lemma locate_plain:
  "plain_name n \<Longrightarrow> locate e n = Entry n"
  by (simp add: locate_def)

lemma upload_finally_present:
  assumes "temp_uploads w = Some es" "n \<in> fst ` set es"
  shows "upload_finally (Entry n) pending w =
     (pending,
      w\<lparr>temp_uploads := (if filter (\<lambda>e. fst e \<noteq> n) es = [] then None
                          else Some (filter (\<lambda>e. fst e \<noteq> n) es)),
        trace := trace w @ [OsRemove (entry_path n)] @
                 (if filter (\<lambda>e. fst e \<noteq> n) es = [] then [OsRmdir temp_dir] else [])\<rparr>)"
  using assms
  by (simp add: upload_finally_def os_remove_def os_listdir_def os_rmdir_def emit_def)

lemma upload_document_body_eq:
  assumes "plain_name (name f)"
  shows "upload_document_body e c f w =
     (Returns (upload_value (files_upload e c (entry_path (name f)))),
      w\<lparr>temp_uploads :=
          (if others_in_temp_dir (name f) w = [] then None
           else Some (others_in_temp_dir (name f) w)),
        trace := trace w @
          [Mkdir temp_dir, OpenWrite (entry_path (name f)) (getbuffer f),
           FilesUpload (entry_path (name f))] @
          upload_report (files_upload e c (entry_path (name f))) @
          [OsRemove (entry_path (name f))] @
          (if others_in_temp_dir (name f) w = [] then [OsRmdir temp_dir] else [])\<rparr>)"
proof -
  define es0 where "es0 = (case temp_uploads w of None \<Rightarrow> [] | Some es \<Rightarrow> es)"
  define es1 where "es1 = (name f, getbuffer f) # filter (\<lambda>e. fst e \<noteq> name f) es0"
  have loc: "locate e (name f) = Entry (name f)"
    using assms by (rule locate_plain)
  have w1: "temp_uploads (mkdir_exist_ok w) = Some es0"
    by (simp add: mkdir_exist_ok_def es0_def split: option.splits)
  have ow: "open_write (Entry (name f)) (getbuffer f) (mkdir_exist_ok w) =
      (Returns (entry_path (name f)), emit (OpenWrite (entry_path (name f)) (getbuffer f))
                     ((mkdir_exist_ok w)\<lparr>temp_uploads := Some es1\<rparr>))"
    by (simp add: open_write_def w1 es1_def)
  have mem: "name f \<in> fst ` set es1" by (simp add: es1_def)
  have flt: "filter (\<lambda>e. fst e \<noteq> name f) es1 = others_in_temp_dir (name f) w"
    by (simp add: es1_def others_in_temp_dir_def es0_def)
  define w2 where "w2 = emit (FilesUpload (entry_path (name f)))
      (emit (OpenWrite (entry_path (name f)) (getbuffer f))
         ((mkdir_exist_ok w)\<lparr>temp_uploads := Some es1\<rparr>))"
  have t2: "temp_uploads w2 = Some es1" by (simp add: w2_def)
  have t2': "temp_uploads (emit ev w2) = Some es1" for ev by (simp add: w2_def)
  have body: "upload_document_body e c f w =
      (case files_upload e c (entry_path (name f)) of
         Returns uploaded_file \<Rightarrow> upload_finally (Entry (name f)) (Returns (Some uploaded_file)) w2
       | Raises x \<Rightarrow> upload_finally (Entry (name f)) (Returns None)
                       (emit (StError (''Error during file upload: '' @ x)) w2))"
    unfolding w2_def by (simp add: upload_document_body_def Let_def loc ow)
  have w2_eq: "w2 = w\<lparr>temp_uploads := Some es1,
      trace := trace w @ [Mkdir temp_dir, OpenWrite (entry_path (name f)) (getbuffer f),
                          FilesUpload (entry_path (name f))]\<rparr>"
    by (simp add: w2_def mkdir_exist_ok_def emit_def split: option.splits)
  show ?thesis
  proof (cases "files_upload e c (entry_path (name f))")
    case (Returns h)
    then show ?thesis
      by (simp add: body upload_finally_present [OF t2 mem] flt upload_value_def
            upload_report_def) (simp add: w2_eq)
  next
    case (Raises x)
    then show ?thesis
      by (simp add: body upload_finally_present [OF t2' mem] flt upload_value_def
            upload_report_def) (simp add: w2_eq emit_def)
  qed
qed

text \<open>Whatever the name, the body only adds events and leaves the client's memo alone.\<close>

lemma upload_finally_extends:
  "(\<exists>evs. trace (snd (upload_finally t pending w)) = trace w @ evs \<and>
          filter sdk_call evs = []) \<and>
   initialize_client_cache (snd (upload_finally t pending w)) = initialize_client_cache w \<and>
   upload_document_cache (snd (upload_finally t pending w)) = upload_document_cache w"
  by (auto simp: upload_finally_def os_remove_def os_listdir_def os_rmdir_def emit_def
      split: target.splits option.splits if_splits)

lemma upload_document_body_extends:
  "(\<exists>evs. trace (snd (upload_document_body e c f w)) = trace w @ evs) \<and>
   initialize_client_cache (snd (upload_document_body e c f w)) = initialize_client_cache w"
proof -
  define t where "t = locate e (name f)"
  define w1 where "w1 = mkdir_exist_ok w"
  have w1: "trace w1 = trace w @ [Mkdir temp_dir]"
    "initialize_client_cache w1 = initialize_client_cache w"
    by (simp_all add: w1_def mkdir_exist_ok_def split: option.splits)
  obtain r2 w2 where ow: "open_write t (getbuffer f) w1 = (r2, w2)"
    by (cases "open_write t (getbuffer f) w1")
  have w2: "\<exists>evs. trace w2 = trace w1 @ evs"
    "initialize_client_cache w2 = initialize_client_cache w1"
    using ow
    by (auto simp: open_write_def split: target.splits option.splits if_splits)
  then obtain evs2 where evs2: "trace w2 = trace w1 @ evs2" by blast
  have fin: "\<exists>evs. trace (snd (upload_finally t pending w3)) = trace w3 @ evs"
    "initialize_client_cache (snd (upload_finally t pending w3)) = initialize_client_cache w3"
    for pending :: "types_File option outcome" and w3
    using upload_finally_extends [of t pending w3] by auto
  show ?thesis
  proof (cases r2)
    case (Raises x)
    then show ?thesis
      using ow w1 w2(2) evs2
      by (simp add: upload_document_body_def Let_def t_def [symmetric] w1_def [symmetric])
  next
    case (Returns path)
    show ?thesis
    proof (cases "files_upload e c path")
      case up: (Returns h)
      have "upload_document_body e c f w =
          upload_finally t (Returns (Some h)) (emit (FilesUpload (path)) w2)"
        using ow Returns up
        by (simp add: upload_document_body_def Let_def t_def [symmetric] w1_def [symmetric])
      then show ?thesis
        using fin [of "Returns (Some h)" "emit (FilesUpload (path)) w2"] w1 w2(2) evs2
        by auto
    next
      case up: (Raises x)
      have "upload_document_body e c f w =
          upload_finally t (Returns None)
            (emit (StError (''Error during file upload: '' @ x))
               (emit (FilesUpload (path)) w2))"
        using ow Returns up
        by (simp add: upload_document_body_def Let_def t_def [symmetric] w1_def [symmetric])
      then show ?thesis
        using fin [of "Returns None" "emit (StError (''Error during file upload: '' @ x))
               (emit (FilesUpload (path)) w2)"] w1 w2(2) evs2
        by auto
    qed
  qed
qed

lemma upload_document_extends:
  "(\<exists>evs. trace (snd (upload_document e c f w)) = trace w @ evs) \<and>
   initialize_client_cache (snd (upload_document e c f w)) = initialize_client_cache w"
proof (cases "upload_document_cache w f")
  case None
  obtain r w' where b: "upload_document_body e c f w = (r, w')"
    by (cases "upload_document_body e c f w")
  with upload_document_body_extends [of e c f w] None show ?thesis
    by (cases r) (auto simp: upload_document_def)
next
  case (Some v)
  then show ?thesis
    by (cases v) (simp add: upload_document_def)
qed

section \<open>The claims\<close>

text \<open>
  C5. Every call of \<^verbatim>\<open>delete_uploaded_file\<close> (engine.py) returns normally, whatever the
  remote delete call does; when that call raises, also for a file that is already gone,
  the only effects are the delete call itself and one warning that carries the file's
  name and the error.
\<close>

theorem delete_uploaded_file_never_raises:
  "fst (delete_uploaded_file e c f w) = Returns () \<and>
   (\<forall>x. files_delete e c (file_name f) = Raises x \<longrightarrow>
      snd (delete_uploaded_file e c f w) =
        w\<lparr>trace := trace w @
             [FilesDelete (file_name f),
              StWarning (''Failed to delete file '' @ file_name f @ ''. Error: '' @ x)]\<rparr>)"
  by (simp add: delete_uploaded_file_def Let_def emit_def split: outcome.splits)

theorem delete_uploaded_file_never_raises_witness:
  "files_delete remote_down demo_client (file_name (File ''files/gone'')) = Raises ''503 UNAVAILABLE'' \<and>
   fst (delete_uploaded_file remote_down demo_client (File ''files/gone'') new_process) = Returns () \<and>
   trace (snd (delete_uploaded_file remote_down demo_client (File ''files/gone'') new_process)) =
     [FilesDelete ''files/gone'',
      StWarning ''Failed to delete file files/gone. Error: 503 UNAVAILABLE'']"
  using delete_uploaded_file_never_raises [of remote_down demo_client "File ''files/gone''" new_process]
  by (simp add: remote_down_def remote_up_def new_process_def)

lemma upload_document_miss:
  assumes "upload_document_cache w f = None" and "plain_name (name f)"
  shows "upload_document e c f w =
     (Returns (upload_value (files_upload e c (entry_path (name f)))),
      w\<lparr>temp_uploads :=
          (if others_in_temp_dir (name f) w = [] then None
           else Some (others_in_temp_dir (name f) w)),
        trace := trace w @
          [Mkdir temp_dir, OpenWrite (entry_path (name f)) (getbuffer f),
           FilesUpload (entry_path (name f))] @
          upload_report (files_upload e c (entry_path (name f))) @
          [OsRemove (entry_path (name f))] @
          (if others_in_temp_dir (name f) w = [] then [OsRmdir temp_dir] else []),
        upload_document_cache :=
          (upload_document_cache w)
            (f \<mapsto> (upload_value (files_upload e c (entry_path (name f))),
                  upload_elements (files_upload e c (entry_path (name f)))))\<rparr>)"
  using assms
  by (simp add: upload_document_def upload_document_body_eq elements_since_def
      recorded_append recorded_upload_report)

lemma upload_document_hit:
  assumes "upload_document_cache w f = Some (r, shown)"
  shows "upload_document e c f w = (Returns r, replay_elements shown w)"
  using assms by (simp add: upload_document_def)

lemma upload_document_nested:
  assumes "upload_document_cache w f = None" and "nested_name (name f)"
  shows "\<exists>x. upload_document e c f w =
           (Raises x,
            w\<lparr>temp_uploads := Some (case temp_uploads w of None \<Rightarrow> [] | Some es \<Rightarrow> es),
              trace := trace w @ [Mkdir temp_dir]\<rparr>)"
proof -
  have "\<not> plain_name (name f)" "name f \<noteq> []"
    using assms(2) by (auto simp: nested_name_def plain_name_def)
  then have "locate e (name f) = Nested (takeWhile (\<lambda>c. c \<noteq> CHR ''/'') (name f))"
    using assms(2) by (simp add: locate_def)
  then show ?thesis
    using assms(1)
    by (auto simp: upload_document_def upload_document_body_def open_write_def
        mkdir_exist_ok_def emit_def Let_def split: option.splits)
qed

text \<open>
  C2, as amended. A call of \<^verbatim>\<open>upload_document\<close> (engine.py) that runs the body for a
  plain file name writes the transient file, attempts the upload and then removes the
  file, whether the upload call returned a handle or raised; the directory is removed as
  well when nothing else is in it, and is left with its other entries otherwise. The call
  returns the handle, or \<^verbatim>\<open>None\<close> after reporting the error. A call answered from the
  memo table writes no file: it returns the stored value and shows the stored elements
  again.
\<close>

theorem upload_document_removes_transient_file:
  "(upload_document_cache w f = None \<and> plain_name (name f) \<longrightarrow>
      fst (upload_document e c f w) =
        Returns (upload_value (files_upload e c (entry_path (name f)))) \<and>
      temp_uploads (snd (upload_document e c f w)) =
        (if others_in_temp_dir (name f) w = [] then None
         else Some (others_in_temp_dir (name f) w)) \<and>
      new_events w (snd (upload_document e c f w)) =
        [Mkdir temp_dir, OpenWrite (entry_path (name f)) (getbuffer f),
         FilesUpload (entry_path (name f))] @
        upload_report (files_upload e c (entry_path (name f))) @
        [OsRemove (entry_path (name f))] @
        (if others_in_temp_dir (name f) w = [] then [OsRmdir temp_dir] else [])) \<and>
   (\<forall>r shown. upload_document_cache w f = Some (r, shown) \<longrightarrow>
      upload_document e c f w = (Returns r, w\<lparr>trace := trace w @ map replay shown\<rparr>))"
  by (simp add: upload_document_miss upload_document_hit new_events_def replay_elements_def)

theorem upload_document_removes_transient_file_witness:
  "upload_document_cache new_process report_pdf = None \<and> plain_name (name report_pdf) \<and>
   fst (upload_document remote_down demo_client report_pdf new_process) = Returns None \<and>
   temp_uploads (snd (upload_document remote_down demo_client report_pdf new_process)) = None \<and>
   new_events new_process (snd (upload_document remote_down demo_client report_pdf new_process)) =
     [Mkdir ''temp_uploads'', OpenWrite ''temp_uploads/report.pdf'' ''PDF-1'',
      FilesUpload ''temp_uploads/report.pdf'',
      StError ''Error during file upload: 503 UNAVAILABLE'',
      OsRemove ''temp_uploads/report.pdf'', OsRmdir ''temp_uploads''] \<and>
   upload_document_cache shared_directory report_pdf = None \<and>
   fst (upload_document remote_up demo_client report_pdf shared_directory) =
     Returns (Some (File ''files/temp_uploads/report.pdf'')) \<and>
   temp_uploads (snd (upload_document remote_up demo_client report_pdf shared_directory)) =
     Some [(''keep.txt'', ''kept'')] \<and>
   new_events shared_directory
     (snd (upload_document remote_up demo_client report_pdf shared_directory)) =
     [Mkdir ''temp_uploads'', OpenWrite ''temp_uploads/report.pdf'' ''PDF-1'',
      FilesUpload ''temp_uploads/report.pdf'', OsRemove ''temp_uploads/report.pdf''] \<and>
   upload_document_cache
     (snd (upload_document remote_down demo_client report_pdf new_process)) report_pdf =
     Some (None, [ElError ''Error during file upload: 503 UNAVAILABLE'']) \<and>
   upload_document remote_up demo_client report_pdf
     (snd (upload_document remote_down demo_client report_pdf new_process)) =
     (Returns None,
      (snd (upload_document remote_down demo_client report_pdf new_process))
        \<lparr>trace := trace (snd (upload_document remote_down demo_client report_pdf new_process)) @
                  [StError ''Error during file upload: 503 UNAVAILABLE'']\<rparr>)"
proof -
  have plain: "plain_name (name report_pdf)"
    by (simp add: plain_name_def report_pdf_def)
  have stored: "upload_document_cache
     (snd (upload_document remote_down demo_client report_pdf new_process)) report_pdf =
     Some (None, [ElError ''Error during file upload: 503 UNAVAILABLE''])"
    using plain
    by (simp add: upload_document_miss new_process_def upload_value_def upload_elements_def
        remote_down_def remote_up_def)
  show ?thesis
    using plain stored
      upload_document_removes_transient_file [of new_process report_pdf remote_down demo_client]
      upload_document_removes_transient_file [of shared_directory report_pdf remote_up demo_client]
      upload_document_removes_transient_file
        [of "snd (upload_document remote_down demo_client report_pdf new_process)" report_pdf
            remote_up demo_client]
    by (simp add: new_process_def shared_directory_def report_pdf_def remote_down_def
        remote_up_def others_in_temp_dir_def upload_value_def upload_report_def entry_path_def
        temp_dir_def)
qed

text \<open>
  C2 as stated fails for a name with a directory part. The file is opened before the
  \<^verbatim>\<open>try\<close>; \<^verbatim>\<open>open()\<close> raises because \<^verbatim>\<open>temp_uploads/sub\<close> does not exist, the
  exception leaves the function at once, no upload is attempted, and the directory that
  \<^verbatim>\<open>mkdir\<close> has just created stays behind, empty.
\<close>

theorem upload_document_leaves_directory_counterexample:
  "temp_uploads new_process = None \<and>
   upload_document remote_up demo_client nested_txt new_process =
     (Raises ''FileNotFoundError'',
      new_process\<lparr>temp_uploads := Some [], trace := [Mkdir ''temp_uploads'']\<rparr>)"
  by (simp add: upload_document_def upload_document_body_def locate_def plain_name_def
      nested_name_def open_write_def mkdir_exist_ok_def emit_def nested_txt_def
      new_process_def temp_dir_def Let_def)

text \<open>
  C7, as amended. A call of \<^verbatim>\<open>upload_document\<close> that runs the body for a plain file name
  writes the blob to \<^verbatim>\<open>temp_uploads/NAME\<close>, where \<^verbatim>\<open>NAME\<close> is the name of the uploaded
  file, so that the path is fixed by the file name alone; then it invokes the remote
  upload call with that path. It writes nowhere else.
\<close>

theorem upload_document_writes_before_upload:
  assumes "upload_document_cache w f = None" and "plain_name (name f)"
  shows "\<exists>rest. new_events w (snd (upload_document e c f w)) =
           Mkdir temp_dir # OpenWrite (temp_dir @ ''/'' @ name f) (getbuffer f) #
           FilesUpload (temp_dir @ ''/'' @ name f) # rest \<and>
           written_paths rest = []"
  using assms
  by (cases "files_upload e c (entry_path (name f))")
     (simp_all add: upload_document_miss new_events_def entry_path_def upload_report_def)

theorem upload_document_writes_before_upload_witness:
  "upload_document_cache new_process report_pdf = None \<and> plain_name (name report_pdf) \<and>
   (\<exists>rest. new_events new_process (snd (upload_document remote_up demo_client report_pdf new_process)) =
      Mkdir ''temp_uploads'' # OpenWrite ''temp_uploads/report.pdf'' ''PDF-1'' #
      FilesUpload ''temp_uploads/report.pdf'' # rest \<and> written_paths rest = [])"
  using upload_document_writes_before_upload [of new_process report_pdf remote_up demo_client]
  by (simp add: new_process_def report_pdf_def temp_dir_def plain_name_def)

text \<open>
  C7 as stated fails: two calls carrying the same file name and different bytes, one after
  the other in one process, both write \<^verbatim>\<open>temp_uploads/report.pdf\<close>.
\<close>

theorem upload_document_same_path_counterexample:
  "report_pdf \<noteq> report_pdf_revised \<and>
   written_paths
     (trace (snd (upload_document remote_up demo_client report_pdf_revised
                   (snd (upload_document remote_up demo_client report_pdf new_process))))) =
     [''temp_uploads/report.pdf'', ''temp_uploads/report.pdf'']"
  by (simp add: upload_document_miss new_process_def report_pdf_def report_pdf_revised_def
        remote_up_def others_in_temp_dir_def upload_value_def upload_report_def
        entry_path_def temp_dir_def plain_name_def)

text \<open>
  C3, as amended. When the remote generate call raises, \<^verbatim>\<open>process_document\<close> reports the
  error with \<^verbatim>\<open>st.error\<close> and returns the string
  \<^verbatim>\<open>Failed to get response from Gemini.\<close>; the chat turn returns normally, having appended
  the user's message and an assistant message whose content is that string.
\<close>

theorem process_document_failure_fallback:
  assumes "generate_content e c model_name f prompt = Raises x"
  shows "process_document e c f prompt w =
           (Returns (Some ''Failed to get response from Gemini.''),
            w\<lparr>trace := trace w @
                 [GenerateContent model_name f prompt,
                  StError (''Error during content generation: '' @ x)]\<rparr>) \<and>
         (uploaded_file_object s = Some (Some f) \<and> prompt \<noteq> [] \<longrightarrow>
            fst (chat_with_document e c (Some prompt) s w) = Returns () \<and>
            messages (fst (snd (chat_with_document e c (Some prompt) s w))) =
              Some ((case messages s of None \<Rightarrow> [greeting] | Some ms \<Rightarrow> ms) @
                    [\<lparr>role = ''user'', content = Some prompt\<rparr>,
                     \<lparr>role = ''assistant'',
                      content = Some ''Failed to get response from Gemini.''\<rparr>]))"
proof -
  have pd: "process_document e c f prompt w' =
           (Returns (Some ''Failed to get response from Gemini.''),
            w'\<lparr>trace := trace w' @
                 [GenerateContent model_name f prompt,
                  StError (''Error during content generation: '' @ x)]\<rparr>)" for w'
    using assms by (simp add: process_document_def Let_def emit_def)
  show ?thesis
    by (simp add: pd chat_with_document_def Let_def)
qed

theorem process_document_failure_fallback_witness:
  "generate_content remote_down demo_client model_name (File ''files/h1'') ''summarize'' =
     Raises ''503 UNAVAILABLE'' \<and>
   process_document remote_down demo_client (File ''files/h1'') ''summarize'' new_process =
     (Returns (Some ''Failed to get response from Gemini.''),
      new_process\<lparr>trace :=
        [GenerateContent ''gemini-2.5-flash'' (File ''files/h1'') ''summarize'',
         StError ''Error during content generation: 503 UNAVAILABLE'']\<rparr>) \<and>
   messages (fst (snd (chat_with_document remote_down demo_client (Some ''summarize'')
       (new_session\<lparr>uploaded_file_object := Some (Some (File ''files/h1'')), messages := Some []\<rparr>)
       new_process))) =
     Some [\<lparr>role = ''user'', content = Some ''summarize''\<rparr>,
           \<lparr>role = ''assistant'', content = Some ''Failed to get response from Gemini.''\<rparr>]"
  using process_document_failure_fallback [of remote_down demo_client "File ''files/h1''"
      "''summarize''" "''503 UNAVAILABLE''" new_process
      "new_session\<lparr>uploaded_file_object := Some (Some (File ''files/h1'')), messages := Some []\<rparr>"]
  by (simp add: remote_down_def remote_up_def new_process_def new_session_def model_name_def)

text \<open>
  C3 as stated fails on the string: what is returned is not \<^verbatim>\<open>Failed to get response\<close>.
\<close>

theorem process_document_fallback_counterexample:
  "fst (process_document remote_down demo_client (File ''files/h1'') ''summarize'' new_process) \<noteq>
     Returns (Some ''Failed to get response'')"
  by (simp add: process_document_def Let_def remote_down_def remote_up_def)

lemma initialize_client_returned:
  assumes "initialize_client e w = (Returns v, w1)"
  shows "initialize_client_cache w1 = Some v"
proof (cases "initialize_client_cache w")
  case None
  obtain r w' where b: "initialize_client_body e w = (r, w')"
    by (cases "initialize_client_body e w")
  with None assms show ?thesis
    by (cases r) (auto simp: initialize_client_def)
next
  case (Some v')
  with assms show ?thesis
    by (auto simp: initialize_client_def)
qed











text \<open>
  C4 on document_analyzer_app.py. With the placeholder as the configured key and a
  constructor that accepts any string, \<^verbatim>\<open>initialize_client\<close> returns a client handle and
  records no error: the placeholder is not looked at.
\<close>

theorem daa_initialize_client_accepts_placeholder:
  "secrets secrets_placeholder ''GEMINI_API_KEY'' = Some ''YOUR_ACTUAL_API_KEY'' \<and>
   daa_initialize_client secrets_placeholder new_session new_process =
     (Returns (Some (Client ''YOUR_ACTUAL_API_KEY'')),
      new_session\<lparr>session_client := Some (Some (Client ''YOUR_ACTUAL_API_KEY''))\<rparr>,
      new_process\<lparr>trace := [GenaiClient ''YOUR_ACTUAL_API_KEY'']\<rparr>) \<and>
   session_client_error
     (fst (snd (daa_initialize_client secrets_placeholder new_session new_process))) = None"
  by (simp add: daa_initialize_client_def secrets_placeholder_def remote_up_def new_session_def
        new_process_def emit_def)

text \<open>
  The same property on engine.py, where it holds as long as a secrets file exists: on
  the first call of the process, a missing key or one of the two placeholders makes
  \<^verbatim>\<open>initialize_client\<close> return the pair of \<^verbatim>\<open>None\<close> and a message that is not empty,
  without calling the constructor. Without a secrets file the call raises.
\<close>

theorem initialize_client_unusable_key:
  assumes "initialize_client_cache w = None"
    and "secrets e ''GEMINI_API_KEY'' = None \<or>
         secrets e ''GEMINI_API_KEY'' = Some ''YOUR_ACTUAL_API_KEY'' \<or>
         secrets e ''GEMINI_API_KEY'' = Some ''''"
  shows "(secrets_file e \<longrightarrow>
            initialize_client e w =
              (Returns (None, Some key_not_found_message),
               w\<lparr>initialize_client_cache := Some (None, Some key_not_found_message)\<rparr>)) \<and>
         (\<not> secrets_file e \<longrightarrow>
            initialize_client e w = (Raises ''StreamlitSecretNotFoundError'', w)) \<and>
         key_not_found_message \<noteq> []"
proof -
  have "initialize_client_body e w = (Returns (None, Some key_not_found_message), w)"
    if "secrets_file e"
    using assms(2) that by (auto simp: initialize_client_body_def)
  moreover have "initialize_client_body e w = (Raises ''StreamlitSecretNotFoundError'', w)"
    if "\<not> secrets_file e"
    using that by (simp add: initialize_client_body_def)
  moreover have "key_not_found_message \<noteq> []"
    by (simp add: key_not_found_message_def stop_sign_def)
  ultimately show ?thesis
    using assms(1) by (simp add: initialize_client_def)
qed

theorem initialize_client_unusable_key_witness:
  "initialize_client_cache new_process = None \<and>
   secrets_file secrets_placeholder \<and>
   secrets secrets_placeholder ''GEMINI_API_KEY'' = Some ''YOUR_ACTUAL_API_KEY'' \<and>
   initialize_client secrets_placeholder new_process =
     (Returns (None, Some key_not_found_message),
      new_process\<lparr>initialize_client_cache := Some (None, Some key_not_found_message)\<rparr>) \<and>
   secrets_file secrets_missing \<and>
   secrets secrets_missing ''GEMINI_API_KEY'' = None \<and>
   fst (initialize_client secrets_missing new_process) =
     Returns (None, Some key_not_found_message) \<and>
   \<not> secrets_file no_secrets_file \<and>
   initialize_client no_secrets_file new_process =
     (Raises ''StreamlitSecretNotFoundError'', new_process)"
  using initialize_client_unusable_key [of new_process secrets_placeholder]
    initialize_client_unusable_key [of new_process secrets_missing]
    initialize_client_unusable_key [of new_process no_secrets_file]
  by (simp add: new_process_def secrets_placeholder_def secrets_missing_def no_secrets_file_def
      remote_up_def)

text \<open>
  C6 on app.py. A first upload that succeeds, followed by the rerun it requests: the message
  history is the empty list, cleared but without the greeting, and the chat area shows no
  message. The greeting is appended only while the key \<^verbatim>\<open>messages\<close> is absent, and the
  upload handler has just created it.
\<close>

theorem upload_leaves_history_empty:
  "script_run remote_up (click_process report_pdf) new_session new_process =
     (Normal,
      new_session\<lparr>uploaded_file_object := Some (Some (File ''files/temp_uploads/report.pdf'')),
                  cleanup_done := Some False, messages := Some []\<rparr>,
      snd (snd (script_run remote_up (click_process report_pdf) new_session new_process))) \<and>
   chat_messages_shown
     (trace (snd (snd (script_run remote_up (click_process report_pdf) new_session new_process)))) = []"
  by (simp add: script_run_def main_def initialize_client_def initialize_client_body_def
        init_session_state_def file_loaded_warning_def sidebar_process_document_def
        sidebar_manual_delete_def chat_with_document_def render_messages_def
        upload_document_def upload_document_body_eq plain_name_def elements_since_def
        upload_value_def upload_report_def
        others_in_temp_dir_def rerun_inputs_def click_process_def report_pdf_def
        remote_up_def new_session_def new_process_def entry_path_def temp_dir_def Let_def)

text \<open>
  C1 on document_analyzer_app.py. The session holds the handle of report.pdf. During an
  outage the user clicks "Process Document" with a second file: the delete call and the
  upload call both raise, so the handle stays on the server and in the session. After the
  outage the user clicks again with a third file: this run uploads the file and makes no
  delete call at all, because the memoised \<^verbatim>\<open>delete_uploaded_file\<close> has seen the handle
  before and only shows its old warning again; the handle of report.pdf is replaced
  without ever being deleted.
\<close>

theorem daa_retry_skips_deletion:
  "uploaded_file_object (fst (snd daa_after_outage)) =
     Some (Some (File ''files/temp_uploads/report.pdf'')) \<and>
   filter sdk_call (new_events (snd (snd daa_after_first_upload)) (snd (snd daa_after_outage))) =
     [FilesDelete ''files/temp_uploads/report.pdf'', FilesUpload ''temp_uploads/report2.pdf''] \<and>
   filter sdk_call (new_events (snd (snd daa_after_outage)) (snd (snd daa_after_retry))) =
     [FilesUpload ''temp_uploads/notes.txt''] \<and>
   uploaded_file_object (fst (snd daa_after_retry)) =
     Some (Some (File ''files/temp_uploads/notes.txt''))"
  by code_simp

lemma init_session_state_invariant:
  "cleanup_invariant s \<Longrightarrow> cleanup_invariant (init_session_state s)"
  by (auto simp: cleanup_invariant_def init_session_state_def Let_def)

lemma sidebar_process_document_session:
  "fst (snd (sidebar_process_document e c inp s w)) = s \<or>
   (\<exists>file_obj. fst (snd (sidebar_process_document e c inp s w)) =
      s\<lparr>uploaded_file_object := Some (Some file_obj), messages := Some [],
        cleanup_done := Some False\<rparr>)"
  by (auto simp: sidebar_process_document_def split: option.splits prod.splits outcome.splits)

lemma sidebar_manual_delete_session:
  "fst (snd (sidebar_manual_delete e c inp s w)) = s \<or>
   fst (snd (sidebar_manual_delete e c inp s w)) =
     s\<lparr>uploaded_file_object := Some None, cleanup_done := Some True, messages := Some []\<rparr>"
  by (simp add: sidebar_manual_delete_def split: option.splits prod.splits outcome.splits)

lemma chat_with_document_session:
  "uploaded_file_object (fst (snd (chat_with_document e c chat s w))) = uploaded_file_object s \<and>
   cleanup_done (fst (snd (chat_with_document e c chat s w))) = cleanup_done s"
  by (simp add: chat_with_document_def Let_def split: option.splits prod.splits outcome.splits)

lemma sidebar_process_document_invariant:
  "cleanup_invariant s \<Longrightarrow> cleanup_invariant (fst (snd (sidebar_process_document e c inp s w)))"
  using sidebar_process_document_session [of e c inp s w]
  by (auto simp: cleanup_invariant_def)

lemma sidebar_manual_delete_invariant:
  "cleanup_invariant s \<Longrightarrow> cleanup_invariant (fst (snd (sidebar_manual_delete e c inp s w)))"
  using sidebar_manual_delete_session [of e c inp s w]
  by (auto simp: cleanup_invariant_def)

lemma chat_with_document_invariant:
  "cleanup_invariant s \<Longrightarrow> cleanup_invariant (fst (snd (chat_with_document e c chat s w)))"
  using chat_with_document_session [of e c chat s w]
  by (simp add: cleanup_invariant_def)

lemma main_invariant:
  assumes "cleanup_invariant s"
  shows "cleanup_invariant (fst (snd (main e inp s w)))"
proof (cases "initialize_client e w")
  case (Pair r w0)
  show ?thesis
  proof (cases r)
    case (Raises x)
    with Pair assms show ?thesis by (simp add: main_def)
  next
    case (Returns v)
    obtain client_opt error_message where v: "v = (client_opt, error_message)"
      by (cases v)
    show ?thesis
    proof (cases client_opt)
      case None
      with Pair Returns v assms show ?thesis
        by (simp add: main_def split: option.splits)
    next
      case (Some c)
      define s1 where "s1 = init_session_state s"
      define w1 where "w1 = file_loaded_warning inp s1 w0"
      have i1: "cleanup_invariant s1"
        using assms by (simp add: s1_def init_session_state_invariant)
      obtain fl2 s2 w2 where b2: "sidebar_process_document e c inp s1 w1 = (fl2, s2, w2)"
        by (cases "sidebar_process_document e c inp s1 w1")
      have i2: "cleanup_invariant s2"
        using sidebar_process_document_invariant [OF i1, of e c inp w1] b2 by simp
      obtain fl3 s3 w3 where b3: "sidebar_manual_delete e c inp s2 w2 = (fl3, s3, w3)"
        by (cases "sidebar_manual_delete e c inp s2 w2")
      have i3: "cleanup_invariant s3"
        using sidebar_manual_delete_invariant [OF i2, of e c inp w2] b3 by simp
      obtain r4 s4 w4 where b4: "chat_with_document e c (chat_input inp) s3 w3 = (r4, s4, w4)"
        by (cases "chat_with_document e c (chat_input inp) s3 w3")
      have i4: "cleanup_invariant s4"
        using chat_with_document_invariant [OF i3, of e c "chat_input inp" w3] b4 by simp
      have "main e inp s w =
          (case sidebar_process_document e c inp s1 w1 of
             (Normal, s2, w2) \<Rightarrow>
               (case sidebar_manual_delete e c inp s2 w2 of
                  (Normal, s3, w3) \<Rightarrow>
                    (case chat_with_document e c (chat_input inp) s3 w3 of
                       (Raises x, s4, w4) \<Rightarrow> (Uncaught x, s4, w4)
                     | (Returns u, s4, w4) \<Rightarrow> (Normal, s4, w4))
                | stopped \<Rightarrow> stopped)
           | stopped \<Rightarrow> stopped)"
        unfolding s1_def w1_def using Pair Returns v Some by (simp add: main_def Let_def)
      then show ?thesis
        using i2 i3 i4 b2 b3 b4
        by (cases fl2; cases fl3; cases r4) simp_all
    qed
  qed
qed

lemma script_run_invariant:
  assumes "cleanup_invariant s"
  shows "cleanup_invariant (fst (snd (script_run e inp s w)))"
proof (cases "main e inp s w")
  case (fields fl s' w')
  have i: "cleanup_invariant s'"
    using main_invariant [OF assms, of e inp w] fields by simp
  show ?thesis
    using fields i main_invariant [OF i, of e "rerun_inputs inp" w']
    by (cases fl) (simp_all add: script_run_def)
qed

lemma script_runs_invariant:
  "cleanup_invariant s \<Longrightarrow> cleanup_invariant (fst (script_runs runs s w))"
proof (induction runs arbitrary: s w)
  case Nil
  then show ?case by simp
next
  case (Cons run runs)
  obtain e inp where run: "run = (e, inp)" by (cases run)
  obtain fl s' w' where r: "script_run e inp s w = (fl, s', w')"
    by (cases "script_run e inp s w")
  have "cleanup_invariant s'"
    using script_run_invariant [OF Cons.prems, of e inp w] r by simp
  then show ?case
    using Cons.IH [of s' w'] run r by simp
qed

text \<open>
  C9. The invariant "when \<^verbatim>\<open>cleanup_done\<close> is true, \<^verbatim>\<open>uploaded_file_object\<close> is
  \<^verbatim>\<open>None\<close>" holds in a new session and is kept by every run of \<^verbatim>\<open>main\<close>, by the rerun
  that follows it, and hence in every state a session reaches. The manual-delete handler
  either leaves the session state alone or sets the flag and clears the handle and the
  history together; the upload handler either leaves it alone or stores the new handle,
  clears the history and sets the flag to false.
\<close>

theorem cleanup_invariant_preserved:
  "cleanup_invariant new_session \<and>
   (cleanup_invariant s \<longrightarrow>
      cleanup_invariant (fst (snd (main e inp s w))) \<and>
      cleanup_invariant (fst (snd (script_run e inp s w)))) \<and>
   cleanup_invariant (fst (script_runs runs new_session w)) \<and>
   (fst (snd (sidebar_manual_delete e c inp s w)) = s \<or>
    fst (snd (sidebar_manual_delete e c inp s w)) =
      s\<lparr>uploaded_file_object := Some None, cleanup_done := Some True, messages := Some []\<rparr>) \<and>
   (fst (snd (sidebar_process_document e c inp s w)) = s \<or>
    (\<exists>file_obj. fst (snd (sidebar_process_document e c inp s w)) =
       s\<lparr>uploaded_file_object := Some (Some file_obj), messages := Some [],
         cleanup_done := Some False\<rparr>))"
proof -
  have new: "cleanup_invariant new_session"
    by (simp add: cleanup_invariant_def new_session_def)
  show ?thesis
    using new script_runs_invariant [OF new, of runs w] main_invariant [of s e inp w]
      script_run_invariant [of s e inp w] sidebar_manual_delete_session [of e c inp s w]
      sidebar_process_document_session [of e c inp s w]
    by blast
qed

theorem cleanup_invariant_preserved_witness:
  "cleanup_done (new_session\<lparr>uploaded_file_object := Some None, cleanup_done := Some True,
                             messages := Some []\<rparr>) = Some True \<and>
   cleanup_invariant (new_session\<lparr>uploaded_file_object := Some None, cleanup_done := Some True,
                                  messages := Some []\<rparr>) \<and>
   cleanup_invariant
     (fst (snd (main remote_up (click_process report_pdf)
        (new_session\<lparr>uploaded_file_object := Some None, cleanup_done := Some True,
                     messages := Some []\<rparr>) new_process))) \<and>
   cleanup_done
     (fst (snd (main remote_up (click_process report_pdf)
        (new_session\<lparr>uploaded_file_object := Some None, cleanup_done := Some True,
                     messages := Some []\<rparr>) new_process))) = Some False \<and>
   uploaded_file_object
     (fst (snd (main remote_up (click_process report_pdf)
        (new_session\<lparr>uploaded_file_object := Some None, cleanup_done := Some True,
                     messages := Some []\<rparr>) new_process))) =
     Some (Some (File ''files/temp_uploads/report.pdf''))"
proof -
  have inv: "cleanup_invariant (new_session\<lparr>uploaded_file_object := Some None,
      cleanup_done := Some True, messages := Some []\<rparr>)"
    by (simp add: cleanup_invariant_def)
  have run: "fst (snd (main remote_up (click_process report_pdf)
        (new_session\<lparr>uploaded_file_object := Some None, cleanup_done := Some True,
                     messages := Some []\<rparr>) new_process)) =
      new_session\<lparr>uploaded_file_object := Some (Some (File ''files/temp_uploads/report.pdf'')),
                  cleanup_done := Some False, messages := Some []\<rparr>"
    by (simp add: main_def initialize_client_def initialize_client_body_def
        init_session_state_def file_loaded_warning_def sidebar_process_document_def
        upload_document_def upload_document_body_eq plain_name_def elements_since_def
        upload_value_def
        click_process_def report_pdf_def remote_up_def new_session_def new_process_def
        entry_path_def temp_dir_def Let_def)
  show ?thesis
    using inv cleanup_invariant_preserved [of
        "new_session\<lparr>uploaded_file_object := Some None, cleanup_done := Some True,
                     messages := Some []\<rparr>" remote_up "click_process report_pdf" new_process]
    by (simp add: run)
qed

lemma init_session_state_initialised:
  "uploaded_file_object s \<noteq> None \<Longrightarrow> cleanup_done s \<noteq> None \<Longrightarrow> init_session_state s = s"
  by (auto simp: init_session_state_def Let_def)

lemma delete_uploaded_file_eq:
  "delete_uploaded_file e c f w =
     (Returns (),
      w\<lparr>trace := trace w @
           [FilesDelete (file_name f),
            (case files_delete e c (file_name f) of
               Returns u \<Rightarrow> StToast (''Clean up complete. File '' @ file_name f @ '' deleted.'')
             | Raises x \<Rightarrow> StWarning (''Failed to delete file '' @ file_name f @ ''. Error: '' @ x))]\<rparr>)"
  by (simp add: delete_uploaded_file_def Let_def emit_def split: outcome.splits)

lemma render_messages_trace:
  "trace (render_messages ms w) = trace w @ map (\<lambda>m. ChatMessage (role m) (content m)) ms"
  unfolding render_messages_def
  by (induction ms arbitrary: w) simp_all

lemma upload_document_trace_prefix:
  "\<exists>evs. trace (snd (upload_document e c f w)) = trace w @ evs"
  using upload_document_extends [of e c f w] by blast

text \<open>
  C10. The session holds a handle and the user clicks "Process Document" with a file for
  which \<^verbatim>\<open>upload_document\<close> returns \<^verbatim>\<open>None\<close>. The run of \<^verbatim>\<open>main\<close> makes the delete
  call for the held handle, ends normally and leaves the session state exactly as it was:
  the same handle, the same flag, the same history. A later run with a question sends the
  generate request with that handle.
\<close>

theorem failed_replacement_keeps_stale_handle:
  assumes "initialize_client_cache w = Some (Some c, None)"
    and "uploaded_file_object s = Some (Some previous)"
    and "cleanup_done s = Some d"
    and "messages s = Some ms"
    and "uploaded_file_input inp = Some f"
    and "process_clicked inp"
    and "\<not> manual_delete_clicked inp"
    and "chat_input inp = None"
    and "fst (upload_document e c f (snd (delete_uploaded_file e c previous w))) = Returns None"
  shows "fst (main e inp s w) = Normal \<and>
         fst (snd (main e inp s w)) = s \<and>
         FilesDelete (file_name previous) \<in> set (new_events w (snd (snd (main e inp s w)))) \<and>
         (initialize_client_cache w' = Some (Some c, None) \<and> prompt \<noteq> [] \<longrightarrow>
            GenerateContent model_name previous prompt \<in>
              set (new_events w' (snd (snd (main e' (ask f prompt) s w')))))"
proof -
  define w1 where "w1 = snd (delete_uploaded_file e c previous w)"
  have del: "delete_uploaded_file e c previous w = (Returns (), w1)"
    by (simp add: w1_def delete_uploaded_file_eq)
  obtain w2 where up: "upload_document e c f w1 = (Returns None, w2)"
    using assms(9) unfolding w1_def [symmetric]
    by (cases "upload_document e c f w1") simp
  have init: "init_session_state s = s"
    using assms(2,3) by (simp add: init_session_state_initialised)
  have handler: "sidebar_process_document e c inp s w = (Normal, s, w2)"
    using assms(2,5,6) del up by (simp add: sidebar_process_document_def)
  have manual: "sidebar_manual_delete e c inp s w2 = (Normal, s, w2)"
    using assms(2,3,7) by (simp add: sidebar_manual_delete_def)
  have chat: "chat_with_document e c None s w2 = (Returns (), s, render_messages ms w2)"
    using assms(2,4) by (simp add: chat_with_document_def Let_def)
  have run: "main e inp s w = (Normal, s, render_messages ms w2)"
    using assms(1,2,5,8) init handler manual chat
    by (simp add: main_def initialize_client_def file_loaded_warning_def Let_def)
  obtain evs where evs: "trace w2 = trace w1 @ evs"
    using upload_document_trace_prefix [of e c f w1] up by auto
  have tr1: "trace w1 = trace w @ [FilesDelete (file_name previous),
      (case files_delete e c (file_name previous) of
         Returns u \<Rightarrow> StToast (''Clean up complete. File '' @ file_name previous @ '' deleted.'')
       | Raises x \<Rightarrow> StWarning (''Failed to delete file '' @ file_name previous @ ''. Error: '' @ x))]"
    by (simp add: w1_def delete_uploaded_file_eq)
  have deleted: "FilesDelete (file_name previous) \<in> set (new_events w (render_messages ms w2))"
    by (simp add: new_events_def render_messages_trace evs tr1)
  have later: "GenerateContent model_name previous prompt \<in>
      set (new_events w' (snd (snd (main e' (ask f prompt) s w'))))"
    if c': "initialize_client_cache w' = Some (Some c, None)" and p: "prompt \<noteq> []"
  proof -
    have "\<exists>response. snd (snd (main e' (ask f prompt) s w')) =
        emit (ChatMessage ''assistant'' response)
          (snd (process_document e' c previous prompt
             (emit (ChatMessage ''user'' (Some prompt)) (render_messages ms w'))))"
      using c' p assms(2,3,4) init
      by (auto simp: main_def initialize_client_def file_loaded_warning_def ask_def
          sidebar_process_document_def sidebar_manual_delete_def chat_with_document_def
          process_document_def Let_def split: outcome.splits)
    then show ?thesis
      by (auto simp: new_events_def process_document_def Let_def render_messages_trace
          split: outcome.splits)
  qed
  show ?thesis
    using run deleted later by simp
qed

theorem failed_replacement_keeps_stale_handle_witness:
  "initialize_client_cache warm_process = Some (Some demo_client, None) \<and>
   uploaded_file_object holding_session = Some (Some (File ''files/h1'')) \<and>
   fst (upload_document remote_down demo_client report2_pdf
          (snd (delete_uploaded_file remote_down demo_client (File ''files/h1'') warm_process))) =
     Returns None \<and>
   fst (main remote_down (click_process report2_pdf) holding_session warm_process) = Normal \<and>
   fst (snd (main remote_down (click_process report2_pdf) holding_session warm_process)) =
     holding_session \<and>
   FilesDelete ''files/h1'' \<in>
     set (new_events warm_process
            (snd (snd (main remote_down (click_process report2_pdf) holding_session warm_process)))) \<and>
   GenerateContent model_name (File ''files/h1'') ''summarize'' \<in>
     set (new_events warm_process
            (snd (snd (main remote_up (ask report2_pdf ''summarize'') holding_session warm_process))))"
proof -
  have up: "fst (upload_document remote_down demo_client report2_pdf
          (snd (delete_uploaded_file remote_down demo_client (File ''files/h1'') warm_process))) =
     Returns None"
    by (simp add: delete_uploaded_file_eq upload_document_miss upload_value_def warm_process_def
        new_process_def remote_down_def remote_up_def report2_pdf_def plain_name_def)
  show ?thesis
    using up failed_replacement_keeps_stale_handle [of warm_process demo_client holding_session
        "File ''files/h1''" False "[]" "click_process report2_pdf" report2_pdf remote_down
        warm_process "''summarize''" remote_up]
    by (simp add: warm_process_def holding_session_def new_process_def new_session_def
        click_process_def)
qed

lemma new_events_append:
  "trace w' = trace w @ evs \<Longrightarrow> new_events w w' = evs"
  by (simp add: new_events_def)

lemma sdk_call_upload_report:
  "filter sdk_call (upload_report r) = []"
  by (simp add: upload_report_def split: outcome.splits)

lemma sdk_call_rendered:
  "filter sdk_call (map (\<lambda>m. ChatMessage (role m) (content m)) ms) = []"
  by (induction ms) simp_all

lemma sdk_call_replay:
  "filter sdk_call (map replay shown) = []"
proof (induction shown)
  case Nil
  then show ?case by simp
next
  case (Cons el shown)
  then show ?case by (cases el) simp_all
qed

lemma upload_document_calls:
  assumes "plain_name (name f)"
  shows "\<exists>evs. trace (snd (upload_document e c f w)) = trace w @ evs \<and>
      filter sdk_call evs =
        (if upload_document_cache w f = None then [FilesUpload (entry_path (name f))] else [])"
proof (cases "upload_document_cache w f")
  case None
  then show ?thesis
    using assms by (simp add: upload_document_miss sdk_call_upload_report)
next
  case (Some v)
  then show ?thesis
    by (cases v) (simp add: upload_document_hit sdk_call_replay)
qed

text \<open>
  The property of C1 on app.py with engine.py, where it holds. The session holds a handle
  and the user clicks "Process Document" with a file: the SDK calls of the run are one
  delete call for the held handle, followed by the upload call for the new file, of a
  plain name, unless \<^verbatim>\<open>upload_document\<close> answers from its memo table; nothing else.
\<close>

theorem replacement_deletes_before_upload:
  assumes "initialize_client_cache w = Some (Some c, None)"
    and "uploaded_file_object s = Some (Some previous)"
    and "uploaded_file_input inp = Some f"
    and "process_clicked inp"
    and "\<not> manual_delete_clicked inp"
    and "chat_input inp = None"
    and "plain_name (name f)"
  shows "filter sdk_call (new_events w (snd (snd (main e inp s w)))) =
           FilesDelete (file_name previous) #
           (if upload_document_cache w f = None then [FilesUpload (entry_path (name f))]
            else [])"
proof -
  define s1 where "s1 = init_session_state s"
  define w1 where "w1 = snd (delete_uploaded_file e c previous w)"
  have obj1: "uploaded_file_object s1 = Some (Some previous)"
    using assms(2) by (simp add: s1_def init_session_state_def Let_def)
  have done1: "cleanup_done s1 \<noteq> None"
    by (auto simp: s1_def init_session_state_def Let_def)
  have del: "delete_uploaded_file e c previous w = (Returns (), w1)"
    by (simp add: w1_def delete_uploaded_file_eq)
  obtain notice where tr1: "trace w1 = trace w @ [FilesDelete (file_name previous), notice]"
    and notice: "\<not> sdk_call notice"
    by (cases "files_delete e c (file_name previous)")
       (simp_all add: w1_def delete_uploaded_file_eq)
  have cache1: "upload_document_cache w1 f = upload_document_cache w f"
    by (simp add: w1_def delete_uploaded_file_eq)
  obtain r w2 where up: "upload_document e c f w1 = (r, w2)"
    by (cases "upload_document e c f w1")
  obtain evs where tr2: "trace w2 = trace w1 @ evs"
    and calls: "filter sdk_call evs =
        (if upload_document_cache w f = None then [FilesUpload (entry_path (name f))] else [])"
    using upload_document_calls [OF assms(7), of e c w1] up cache1 by auto
  have handler: "sidebar_process_document e c inp s1 w =
      (case r of
         Raises x \<Rightarrow> (Uncaught x, s1, w2)
       | Returns None \<Rightarrow> (Normal, s1, w2)
       | Returns (Some file_obj) \<Rightarrow>
           (Rerun,
            s1\<lparr>uploaded_file_object := Some (Some file_obj), messages := Some [],
               cleanup_done := Some False\<rparr>, w2))"
    using assms(3,4) obj1 del up
    by (simp add: sidebar_process_document_def split: outcome.splits option.splits)
  have start: "main e inp s w =
      (case sidebar_process_document e c inp s1 w of
         (Normal, s2, w2) \<Rightarrow>
           (case sidebar_manual_delete e c inp s2 w2 of
              (Normal, s3, w3) \<Rightarrow>
                (case chat_with_document e c (chat_input inp) s3 w3 of
                   (Raises x, s4, w4) \<Rightarrow> (Uncaught x, s4, w4)
                 | (Returns u, s4, w4) \<Rightarrow> (Normal, s4, w4))
            | stopped \<Rightarrow> stopped)
       | stopped \<Rightarrow> stopped)"
    using assms(1,3) obj1
    by (simp add: main_def initialize_client_def file_loaded_warning_def Let_def s1_def)
  have manual: "sidebar_manual_delete e c inp s1 w2 = (Normal, s1, w2)"
    using obj1 done1 assms(5) by (auto simp: sidebar_manual_delete_def)
  have chat: "\<exists>s4 ms. chat_with_document e c None s1 w2 = (Returns (), s4, render_messages ms w2)"
    using obj1 by (auto simp: chat_with_document_def Let_def)
  have "\<exists>shown. trace (snd (snd (main e inp s w))) = trace w2 @ shown \<and>
          filter sdk_call shown = []"
  proof (cases r)
    case (Raises x)
    then show ?thesis using start handler by simp
  next
    case (Returns v)
    show ?thesis
    proof (cases v)
      case None
      obtain s4 ms where "chat_with_document e c None s1 w2 = (Returns (), s4, render_messages ms w2)"
        using chat by blast
      then show ?thesis
        using start handler Returns None manual assms(6)
        by (simp add: render_messages_trace sdk_call_rendered)
    next
      case (Some file_obj)
      then show ?thesis using start handler Returns by simp
    qed
  qed
  then obtain shown where "trace (snd (snd (main e inp s w))) = trace w2 @ shown"
    and "filter sdk_call shown = []"
    by blast
  then have "new_events w (snd (snd (main e inp s w))) =
      [FilesDelete (file_name previous), notice] @ evs @ shown"
    and "filter sdk_call shown = []"
    by (simp_all add: new_events_append tr1 tr2)
  then show ?thesis
    using notice calls by simp
qed

theorem replacement_deletes_before_upload_witness:
  "initialize_client_cache warm_process = Some (Some demo_client, None) \<and>
   uploaded_file_object holding_session = Some (Some (File ''files/h1'')) \<and>
   upload_document_cache warm_process report2_pdf = None \<and>
   plain_name (name report2_pdf) \<and>
   filter sdk_call
     (new_events warm_process
        (snd (snd (main remote_up (click_process report2_pdf) holding_session warm_process)))) =
     [FilesDelete ''files/h1'', FilesUpload ''temp_uploads/report2.pdf'']"
  using replacement_deletes_before_upload [of warm_process demo_client holding_session
      "File ''files/h1''" "click_process report2_pdf" report2_pdf remote_up]
  by (simp add: warm_process_def holding_session_def new_process_def new_session_def
      click_process_def report2_pdf_def entry_path_def temp_dir_def plain_name_def)

lemma upload_document_keeps_client:
  "initialize_client_cache (snd (upload_document e c f w)) = initialize_client_cache w"
  using upload_document_extends [of e c f w] by blast

lemma sidebar_process_document_keeps_client:
  "initialize_client_cache (snd (snd (sidebar_process_document e c inp s w))) =
     initialize_client_cache w"
proof -
  have up: "initialize_client_cache w2 = initialize_client_cache w1"
    if "upload_document e c f w1 = (r, w2)" for f w1 r w2
    using upload_document_keeps_client [of e c f w1] that by simp
  show ?thesis
    by (auto simp: sidebar_process_document_def delete_uploaded_file_eq up
        split: option.splits prod.splits outcome.splits)
qed

lemma sidebar_manual_delete_keeps_client:
  "initialize_client_cache (snd (snd (sidebar_manual_delete e c inp s w))) =
     initialize_client_cache w"
  by (simp add: sidebar_manual_delete_def delete_uploaded_file_eq split: option.splits)

lemma file_loaded_warning_keeps_client:
  "initialize_client_cache (file_loaded_warning inp s w) = initialize_client_cache w"
  by (simp add: file_loaded_warning_def split: option.splits)

lemma sidebar_process_document_rerun:
  assumes "sidebar_process_document e c inp s w = (Rerun, s', w')"
  shows "messages s' = Some [] \<and> (\<exists>h. uploaded_file_object s' = Some h) \<and>
         (\<exists>d. cleanup_done s' = Some d)"
  using assms
  by (auto simp: sidebar_process_document_def split: option.splits prod.splits outcome.splits
      if_splits)

lemma sidebar_manual_delete_rerun:
  assumes "sidebar_manual_delete e c inp s w = (Rerun, s', w')"
  shows "messages s' = Some [] \<and> (\<exists>h. uploaded_file_object s' = Some h) \<and>
         (\<exists>d. cleanup_done s' = Some d)"
  using assms
  by (auto simp: sidebar_manual_delete_def split: option.splits prod.splits outcome.splits
      if_splits)

lemma main_rerun_state:
  assumes "main e inp s w = (Rerun, s', w')"
  shows "(\<exists>c em. initialize_client_cache w' = Some (Some c, em)) \<and> messages s' = Some [] \<and>
         (\<exists>h. uploaded_file_object s' = Some h) \<and> (\<exists>d. cleanup_done s' = Some d)"
proof -
  obtain r w0 where ic: "initialize_client e w = (r, w0)"
    by (cases "initialize_client e w")
  have "\<exists>v. r = Returns v"
    using assms ic by (cases r) (simp_all add: main_def)
  then obtain v where v: "r = Returns v" "initialize_client_cache w0 = Some v"
    using ic initialize_client_returned by blast
  obtain client_opt em where ve: "v = (client_opt, em)" by (cases v)
  show ?thesis
  proof (cases client_opt)
    case None
    with assms ic v ve show ?thesis
      by (simp add: main_def split: option.splits)
  next
    case (Some c)
    define s1 where "s1 = init_session_state s"
    define w1 where "w1 = file_loaded_warning inp s1 w0"
    have c1: "initialize_client_cache w1 = Some (Some c, em)"
      using v ve Some by (simp add: w1_def file_loaded_warning_keeps_client)
    obtain fl2 s2 w2 where b2: "sidebar_process_document e c inp s1 w1 = (fl2, s2, w2)"
      by (cases "sidebar_process_document e c inp s1 w1")
    have c2: "initialize_client_cache w2 = Some (Some c, em)"
      using sidebar_process_document_keeps_client [of e c inp s1 w1] b2 c1 by simp
    obtain fl3 s3 w3 where b3: "sidebar_manual_delete e c inp s2 w2 = (fl3, s3, w3)"
      by (cases "sidebar_manual_delete e c inp s2 w2")
    have c3: "initialize_client_cache w3 = Some (Some c, em)"
      using sidebar_manual_delete_keeps_client [of e c inp s2 w2] b3 c2 by simp
    have run: "main e inp s w =
        (case (fl2, s2, w2) of
           (Normal, s2, w2) \<Rightarrow>
             (case (fl3, s3, w3) of
                (Normal, s3, w3) \<Rightarrow>
                  (case chat_with_document e c (chat_input inp) s3 w3 of
                     (Raises x, s4, w4) \<Rightarrow> (Uncaught x, s4, w4)
                   | (Returns u, s4, w4) \<Rightarrow> (Normal, s4, w4))
              | stopped \<Rightarrow> stopped)
         | stopped \<Rightarrow> stopped)"
      unfolding b2 [symmetric] s1_def w1_def
      using ic v ve Some b3 b2
      by (simp add: main_def Let_def s1_def w1_def split: flow.splits)
    show ?thesis
    proof (cases fl2)
      case Rerun
      with run assms have "s' = s2" "w' = w2" by simp_all
      with sidebar_process_document_rerun [of e c inp s1 w1 s2 w2] b2 Rerun c2
      show ?thesis by simp
    next
      case (Uncaught x)
      with run assms show ?thesis by simp
    next
      case Normal
      show ?thesis
      proof (cases fl3)
        case Rerun
        with run Normal assms have "s' = s3" "w' = w3" by simp_all
        with sidebar_manual_delete_rerun [of e c inp s2 w2 s3 w3] b3 Rerun c3
        show ?thesis by simp
      next
        case (Uncaught x)
        with run Normal assms show ?thesis by simp
      next
        case Normal': Normal
        with run Normal assms show ?thesis
          by (simp split: prod.splits outcome.splits)
      qed
    qed
  qed
qed

lemma main_after_rerun:
  assumes "initialize_client_cache w' = Some (Some c, em)"
    and "messages s' = Some []"
    and "uploaded_file_object s' = Some h"
    and "cleanup_done s' = Some d"
  shows "fst (main e' (rerun_inputs inp) s' w') = Normal \<and>
         fst (snd (main e' (rerun_inputs inp) s' w')) = s' \<and>
         chat_messages_shown (new_events w' (snd (snd (main e' (rerun_inputs inp) s' w')))) = []"
proof -
  have init: "init_session_state s' = s'"
    using assms(3,4) by (simp add: init_session_state_initialised)
  have same: "s'\<lparr>messages := Some []\<rparr> = s'"
    using assms(2) by simp
  show ?thesis
    using assms init same
    by (cases h; cases "uploaded_file_input inp")
       (simp_all add: main_def initialize_client_def file_loaded_warning_def rerun_inputs_def
          sidebar_process_document_def sidebar_manual_delete_def chat_with_document_def
          render_messages_def new_events_def emit_def Let_def)
qed

text \<open>
  The behaviour behind C6, for every run of app.py's \<^verbatim>\<open>main\<close> that ends in
  \<^verbatim>\<open>st.rerun()\<close>, which is every successful upload and every manual deletion: the
  history is the empty list when the run stops, the rerun leaves the session state as it
  is, and the rerun shows no chat message; in particular it never shows the greeting.
\<close>

theorem rerun_shows_no_greeting:
  assumes "main e inp s w = (Rerun, s', w')"
  shows "messages s' = Some [] \<and>
         fst (snd (main e' (rerun_inputs inp) s' w')) = s' \<and>
         chat_messages_shown (new_events w' (snd (snd (main e' (rerun_inputs inp) s' w')))) = []"
proof -
  from main_rerun_state [OF assms] obtain c em h d where
    "initialize_client_cache w' = Some (Some c, em)" "messages s' = Some []"
    "uploaded_file_object s' = Some h" "cleanup_done s' = Some d"
    by blast
  then show ?thesis
    using main_after_rerun [of w' c em s' h d e' inp] by simp
qed

theorem rerun_shows_no_greeting_witness:
  "fst first_upload_run = Rerun \<and>
   uploaded_file_object (fst (snd first_upload_run)) =
     Some (Some (File ''files/temp_uploads/report.pdf'')) \<and>
   messages (fst (snd first_upload_run)) = Some [] \<and>
   fst (snd (main remote_up (rerun_inputs (click_process report_pdf))
               (fst (snd first_upload_run)) (snd (snd first_upload_run)))) =
     fst (snd first_upload_run) \<and>
   chat_messages_shown
     (new_events (snd (snd first_upload_run))
        (snd (snd (main remote_up (rerun_inputs (click_process report_pdf))
                     (fst (snd first_upload_run)) (snd (snd first_upload_run)))))) = []"
proof -
  have stop: "fst first_upload_run = Rerun"
    and handle: "uploaded_file_object (fst (snd first_upload_run)) =
      Some (Some (File ''files/temp_uploads/report.pdf''))"
    by code_simp+
  have "main remote_up (click_process report_pdf) new_session new_process =
      (Rerun, fst (snd first_upload_run), snd (snd first_upload_run))"
    using stop by (simp add: first_upload_run_def prod_eq_iff)
  from rerun_shows_no_greeting [OF this, of remote_up] stop handle show ?thesis
    by simp
qed

end
